theory Spec2Isabelle
  imports Main "HOL-Library.Word" "HOL-Library.AList"
begin

section \<open>Go strings, integers and maps\<close>

text \<open>
  Go strings are byte sequences: \<^typ>\<open>string\<close>. \<open>int32\<close> is \<^typ>\<open>32 word\<close>, read with
  \<^const>\<open>sint\<close>; \<open>int\<close> and \<open>int64\<close> are \<^typ>\<open>64 word\<close>. Counts of in-memory
  elements (\<open>len\<close>, loop counters of type \<open>int\<close>) are \<^typ>\<open>int\<close>: they stay far below
  \<open>2^63\<close>.

  A Go map is an association list with pairwise distinct keys. \<open>m[k] = v\<close> is
  \<^const>\<open>AList.update\<close> (replace in place, otherwise append), a lookup is
  \<^const>\<open>map_of\<close>, and \<open>for k, v := range m\<close> visits the pairs of the list in order. Go
  leaves the order of \<open>range\<close> unspecified; the order of the list stands for the order
  of one run.
\<close>

type_synonym int32 = "32 word"
type_synonym int64 = "64 word"
type_synonym ('k, 'v) gomap = "('k \<times> 'v) list"

text \<open>\<open>strings.HasPrefix\<close>, \<open>strings.HasSuffix\<close>, \<open>strings.TrimSuffix\<close>, \<open>strings.Contains\<close>.\<close>

definition HasPrefix :: "string \<Rightarrow> string \<Rightarrow> bool" where
  "HasPrefix s p = (take (length p) s = p)"

definition HasSuffix :: "string \<Rightarrow> string \<Rightarrow> bool" where
  "HasSuffix s x = (length x \<le> length s \<and> drop (length s - length x) s = x)"

definition TrimSuffix :: "string \<Rightarrow> string \<Rightarrow> string" where
  "TrimSuffix s x = (if HasSuffix s x then take (length s - length x) s else s)"

fun Contains :: "string \<Rightarrow> string \<Rightarrow> bool" where
  "Contains [] sub = (sub = [])"
| "Contains (c # cs) sub = (HasPrefix (c # cs) sub \<or> Contains cs sub)"

text \<open>The verb \<open>%d\<close> of \<open>fmt.Sprintf\<close>: signed decimal.\<close>

definition digit :: "nat \<Rightarrow> char" where
  "digit d = char_of (48 + d)"

fun decimal :: "nat \<Rightarrow> string" where
  "decimal n = (if n < 10 then [digit n] else decimal (n div 10) @ [digit (n mod 10)])"

declare decimal.simps [simp del]

definition fmt_d :: "int \<Rightarrow> string" where
  "fmt_d i = (if i < 0 then CHR ''-'' # decimal (nat (- i)) else decimal (nat i))"

text \<open>\<open>abs\<close> of the controller: on \<open>int32\<close>, so the minimum value is its own negation.\<close>

definition abs32 :: "int32 \<Rightarrow> int32" where
  "abs32 x = (if x <s 0 then - x else x)"

text \<open>\<open>contains\<close> of the controller: membership in a slice of strings.\<close>

fun contains :: "string list \<Rightarrow> string \<Rightarrow> bool" where
  "contains [] target = False"
| "contains (v # list) target = (if v = target then True else contains list target)"


section \<open>The desired state: api/v1\<close>

text \<open>
  \<open>SolrCollection\<close> of the API package. Record fields share one name space in a theory,
  so the fields of each struct carry a prefix.
\<close>

record SolrCollection =
  sc_Name :: string
  sc_Alias :: string
  sc_ConfigsetName :: string

text \<open>
  \<open>SetCollectionDefaults\<close>: the receiver is a copy, but the slice shares its backing
  array, so the writes reach the caller. The model returns the slice after the loop and
  the flag \<open>changed\<close>.
\<close>

fun SetCollectionDefaults :: "SolrCollection list \<Rightarrow> SolrCollection list \<times> bool" where
  "SetCollectionDefaults [] = ([], False)"
| "SetCollectionDefaults (c # cs) =
     (let c1 = (if sc_ConfigsetName c = [] then c\<lparr>sc_ConfigsetName := sc_Name c\<rparr> else c);
          c2 = (if sc_Alias c1 = [] then c1\<lparr>sc_Alias := sc_Name c1\<rparr> else c1);
          (cs', changed) = SetCollectionDefaults cs
      in (c2 # cs', sc_ConfigsetName c = [] \<or> sc_Alias c1 = [] \<or> changed))"


section \<open>The engine client: decoding the cluster status\<close>

text \<open>
  An \<open>interface{}\<close> value by its dynamic type. The JSON decoder of apimachinery yields
  \<open>nil\<close>, \<open>bool\<close>, \<open>int64\<close>, \<open>float64\<close>, \<open>string\<close>, slices and string-keyed maps;
  \<open>int32\<close> is a case of \<open>interfaceToInt32\<close>. No function here reads a float, so
  \<open>Float64\<close> carries no value.
\<close>

datatype iface =
    Nil
  | Bool bool
  | Int32 int32
  | Int64 int64
  | Float64
  | Str string
  | Slice "iface list"
  | MapSI "(string \<times> iface) list"

text \<open>The run-time panics of the decoder.\<close>

datatype fault = NilPointerDereference | InterfaceConversion

definition bind :: "fault + 'a \<Rightarrow> ('a \<Rightarrow> fault + 'b) \<Rightarrow> fault + 'b" where
  "bind r f = (case r of Inl e \<Rightarrow> Inl e | Inr x \<Rightarrow> f x)"

text \<open>The type assertions \<open>v.(map[string]interface{})\<close> and \<open>v.(string)\<close>.\<close>

definition asMap :: "iface \<Rightarrow> fault + (string \<times> iface) list" where
  "asMap v = (case v of MapSI m \<Rightarrow> Inr m | _ \<Rightarrow> Inl InterfaceConversion)"

definition asString :: "iface \<Rightarrow> fault + string" where
  "asString v = (case v of Str s \<Rightarrow> Inr s | _ \<Rightarrow> Inl InterfaceConversion)"

text \<open>\<open>m[k]\<close> on a \<open>map[string]interface{}\<close>: \<open>nil\<close> for a key that is absent.\<close>

definition index :: "(string \<times> iface) list \<Rightarrow> string \<Rightarrow> iface" where
  "index m k = (case map_of m k of None \<Rightarrow> Nil | Some v \<Rightarrow> v)"

text \<open>
  \<open>interfaceToInt32\<close>. \<open>reflect.TypeOf(nil)\<close> is the nil \<open>Type\<close>, and the call of
  \<open>Kind\<close> on it panics. \<open>strconv.Atoi\<close> is the standard library's: the parameter
  \<open>Atoi\<close> is the \<open>int\<close> it returns (the error is dropped by the source). The conversion
  \<open>int32(x)\<close> keeps the low 32 bits.
\<close>

definition interfaceToInt32 :: "(string \<Rightarrow> int64) \<Rightarrow> iface \<Rightarrow> fault + int32" where
  "interfaceToInt32 Atoi i =
     (case i of
        Nil \<Rightarrow> Inl NilPointerDereference
      | Int32 x \<Rightarrow> Inr x
      | Int64 x \<Rightarrow> Inr (ucast x)
      | Str s \<Rightarrow> Inr (ucast (Atoi s))
      | _ \<Rightarrow> Inr 0)"

text \<open>\<open>countReplicas\<close>: the number of replicas of \<open>shard1\<close>.\<close>

definition countReplicas :: "iface \<Rightarrow> fault + int32" where
  "countReplicas collection =
     bind (asMap collection) (\<lambda>c.
     bind (asMap (index c ''shards'')) (\<lambda>shards.
     bind (asMap (index shards ''shard1'')) (\<lambda>shard1.
     bind (asMap (index shard1 ''replicas'')) (\<lambda>replicas.
     Inr (word_of_nat (length replicas))))))"

text \<open>\<open>Collection\<close> and \<open>ClusterStatus\<close> of the client package.\<close>

record Collection =
  col_Name :: string
  col_ReplicationFactor :: int32
  col_ReplicaCount :: int32
  col_ConfigName :: string

record ClusterStatus =
  Collections :: "(string, Collection) gomap"
  Aliases :: "(string, string) gomap"

text \<open>
  The body of the loop of \<open>GetClusterStatus\<close> over the collections of the response, in
  the order the source evaluates it.
\<close>

definition decodeCollection :: "(string \<Rightarrow> int64) \<Rightarrow> string \<Rightarrow> iface \<Rightarrow> fault + Collection" where
  "decodeCollection Atoi collection v =
     bind (asMap v) (\<lambda>m.
     let rawReplicationFactor = index m ''replicationFactor'' in
     bind (countReplicas v) (\<lambda>replicaCount.
     bind (interfaceToInt32 Atoi rawReplicationFactor) (\<lambda>replicationFactor.
     bind (asString (index m ''configName'')) (\<lambda>configName.
     Inr \<lparr>col_Name = collection, col_ReplicationFactor = replicationFactor,
          col_ReplicaCount = replicaCount, col_ConfigName = configName\<rparr>))))"

fun decodeAliases :: "(string \<times> iface) list \<Rightarrow> (string, string) gomap \<Rightarrow> fault + (string, string) gomap" where
  "decodeAliases [] aliases = Inr aliases"
| "decodeAliases ((key, v) # rest) aliases =
     bind (asString v) (\<lambda>s. decodeAliases rest (AList.update key s aliases))"

fun decodeCollections ::
  "(string \<Rightarrow> int64) \<Rightarrow> (string \<times> iface) list \<Rightarrow> (string, Collection) gomap \<Rightarrow> fault + (string, Collection) gomap" where
  "decodeCollections Atoi [] collections = Inr collections"
| "decodeCollections Atoi ((collection, v) # rest) collections =
     bind (decodeCollection Atoi collection v) (\<lambda>c.
       decodeCollections Atoi rest (AList.update collection c collections))"

text \<open>
  \<open>GetClusterStatus\<close> from the decoded body of a 200 response on: the projection of
  \<open>jsonResponse\<close> to a \<open>ClusterStatus\<close>.
\<close>

definition projectClusterStatus :: "(string \<Rightarrow> int64) \<Rightarrow> (string \<times> iface) list \<Rightarrow> fault + ClusterStatus" where
  "projectClusterStatus Atoi jsonResponse =
     (let jsonCluster = index jsonResponse ''cluster'' in
      bind (asMap jsonCluster) (\<lambda>cluster.
      let jsonAliases = index cluster ''aliases'';
          jsonCollections = index cluster ''collections'' in
      bind (if jsonAliases \<noteq> Nil then bind (asMap jsonAliases) (\<lambda>m. decodeAliases m []) else Inr []) (\<lambda>aliases.
      bind (if jsonCollections \<noteq> Nil then bind (asMap jsonCollections) (\<lambda>m. decodeCollections Atoi m []) else Inr []) (\<lambda>collections.
      Inr \<lparr>Collections = collections, Aliases = aliases\<rparr>))))"


section \<open>The controller: types and constants\<close>

text \<open>
  The spec as the reconcile pass sees it after \<open>WithDefaults\<close>: \<open>Reconcile\<close> requeues
  when defaulting changed anything, so the pointer fields are set wherever the functions
  below dereference them.
\<close>

record SolrCollectionSetSpec =
  spec_ReplicationFactor :: int32
  spec_BlueGreenEnabled :: bool
  spec_CleanupEnabled :: bool
  spec_Collections :: "SolrCollection list"

datatype ConditionStatus = ConditionTrue | ConditionFalse | ConditionUnknown

text \<open>\<open>metav1.Condition\<close>; a time is a number, 0 the zero time.\<close>

record Condition =
  cond_Type :: string
  cond_Status :: ConditionStatus
  cond_ObservedGeneration :: int64
  cond_LastTransitionTime :: nat
  cond_Reason :: string
  cond_Message :: string

record SolrCollectionStatus =
  st_Name :: string
  st_InstanceName :: string
  st_ConfigSet :: string
  st_Exists :: bool
  st_Active :: bool
  st_BlueGreen :: bool
  st_ReplicationFactor :: int32
  st_ReplicaCount :: int32
  st_ReplicationStatus :: string

record SolrCollectionSetStatus =
  Conditions :: "Condition list"
  ReplicationFactor :: int32
  ReadyRatio :: string
  ScaleStatus :: string
  SolrCollections :: "SolrCollectionStatus list"

record SolrCollectionSet =
  Name :: string
  Namespace :: string
  Spec :: SolrCollectionSetSpec
  Status :: SolrCollectionSetStatus

abbreviation "typeSolrCollectionSetStable \<equiv> ''Stable''"
abbreviation "reasonSolrCollectionSetStable \<equiv> ''stable''"
abbreviation "reasonSolrCollectionSetScalingIn \<equiv> ''scalingIn''"
abbreviation "reasonSolrCollectionSetScalingOut \<equiv> ''scalingOut''"
abbreviation "reasonSolrCollectionAddingCollections \<equiv> ''addingCollections''"
abbreviation "reasonSolrCollectionRemovingCollections \<equiv> ''removingCollections''"
abbreviation "reasonSolrCollectionReplicationFactorMismatch \<equiv> ''replicationFactorMismatch''"
abbreviation "reasonSolrCollectionSetReconcileError \<equiv> ''errorEncountered''"
abbreviation "eventSolrCollectionSetScaleOut \<equiv> ''ScaleOut''"
abbreviation "eventSolrCollectionSetScaleIn \<equiv> ''ScaleIn''"
abbreviation "eventSolrCollectionSetAddingCollection \<equiv> ''AddingCollection''"
abbreviation "eventSolrCollectionSetRemovingCollection \<equiv> ''RemovingCollection''"
abbreviation "backoffRequeueSeconds \<equiv> (20::nat)"

text \<open>The division of \<open>int32\<close>: the quotient truncated towards zero.\<close>

definition quo32 :: "int32 \<Rightarrow> int32 \<Rightarrow> int32" where
  "quo32 a b = word_of_int (sgn (sint a) * sgn (sint b) * (\<bar>sint a\<bar> div \<bar>sint b\<bar>))"


section \<open>The controller: expansion and counting\<close>

text \<open>\<open>mapCollections\<close>: the desired instances, keyed by instance name.\<close>

fun mapCollections ::
  "SolrCollection list \<Rightarrow> (string, SolrCollection) gomap \<Rightarrow> bool \<Rightarrow> (string, SolrCollection) gomap" where
  "mapCollections [] storage isBlueGreenEnabled = storage"
| "mapCollections (spec # specCollections) storage isBlueGreenEnabled =
     (let collectionName = sc_Name spec in
      mapCollections specCollections
        (if isBlueGreenEnabled
         then AList.update (collectionName @ ''_green'') spec
                (AList.update (collectionName @ ''_blue'') spec storage)
         else AList.update collectionName spec storage)
        isBlueGreenEnabled)"

definition countSolrCollections :: "(string, Collection) gomap \<Rightarrow> int" where
  "countSolrCollections collections =
     int (length (filter (\<lambda>(k, collection). \<not> HasPrefix (col_Name collection) ''_'') collections))"

definition countSpecifiedCollections :: "SolrCollection list \<Rightarrow> bool \<Rightarrow> int" where
  "countSpecifiedCollections collections isBlueGreenEnabled =
     int (length collections) * (if isBlueGreenEnabled then 2 else 1)"

text \<open>
  The reverse map of the aliases (collection to alias), built the same way in
  \<open>populateCollectionSetStatus\<close> and in \<open>ManageCollections\<close>. Of several aliases of one
  collection the one visited last stays.
\<close>

fun reverseAliases :: "(string, string) gomap \<Rightarrow> (string, string) gomap \<Rightarrow> (string, string) gomap" where
  "reverseAliases [] collectionsToAliasesMap = collectionsToAliasesMap"
| "reverseAliases ((alias, collection) # aliases) collectionsToAliasesMap =
     reverseAliases aliases (AList.update collection alias collectionsToAliasesMap)"


section \<open>The status reporter\<close>

definition newSolrSectionStatus :: "SolrCollection \<Rightarrow> string \<Rightarrow> SolrCollectionStatus" where
  "newSolrSectionStatus collectionSpec instanceName =
     \<lparr>st_Name = sc_Name collectionSpec,
      st_InstanceName = instanceName,
      st_ConfigSet = sc_ConfigsetName collectionSpec,
      st_Exists = False,
      st_Active = False,
      st_BlueGreen = (instanceName \<noteq> []),
      st_ReplicationFactor = 0,
      st_ReplicaCount = 0,
      st_ReplicationStatus = ''--''\<rparr>"

definition conditionsEqual :: "Condition \<Rightarrow> Condition \<Rightarrow> bool" where
  "conditionsEqual c1 c2 =
     (cond_Type c1 = cond_Type c2 \<and> cond_Status c1 = cond_Status c2
      \<and> cond_Message c1 = cond_Message c2 \<and> cond_Reason c1 = cond_Reason c2)"

text \<open>
  \<open>meta.SetStatusCondition\<close> of apimachinery, after its documentation: a condition of a
  new type is appended (stamped with the current time when it has none); a condition of a
  present type is updated in place, the transition time only when the status changes.
\<close>

definition mergeCondition :: "nat \<Rightarrow> Condition \<Rightarrow> Condition \<Rightarrow> Condition" where
  "mergeCondition now newCondition existing =
     (let e1 = (if cond_Status existing \<noteq> cond_Status newCondition
                then existing\<lparr>cond_Status := cond_Status newCondition,
                       cond_LastTransitionTime :=
                         (if cond_LastTransitionTime newCondition \<noteq> 0
                          then cond_LastTransitionTime newCondition else now)\<rparr>
                else existing)
      in e1\<lparr>cond_Reason := cond_Reason newCondition,
            cond_Message := cond_Message newCondition,
            cond_ObservedGeneration := cond_ObservedGeneration newCondition\<rparr>)"

fun SetStatusCondition :: "nat \<Rightarrow> Condition list \<Rightarrow> Condition \<Rightarrow> Condition list" where
  "SetStatusCondition now [] newCondition =
     [if cond_LastTransitionTime newCondition = 0
      then newCondition\<lparr>cond_LastTransitionTime := now\<rparr> else newCondition]"
| "SetStatusCondition now (c # conditions) newCondition =
     (if cond_Type c = cond_Type newCondition
      then mergeCondition now newCondition c # conditions
      else c # SetStatusCondition now conditions newCondition)"

fun FindStatusCondition :: "Condition list \<Rightarrow> string \<Rightarrow> Condition option" where
  "FindStatusCondition [] conditionType = None"
| "FindStatusCondition (c # conditions) conditionType =
     (if cond_Type c = conditionType then Some c else FindStatusCondition conditions conditionType)"

text \<open>
  The state of \<open>populateCollectionSetStatus\<close> that its loops change: the flag
  \<open>isStable\<close>, \<open>unstableReason\<close>, the events, and the map of the status objects.
\<close>

record reporter =
  isStable :: bool
  unstableReason :: string
  events :: "(string, string) gomap"
  collectionStatusMap :: "(string, SolrCollectionStatus) gomap"

text \<open>The comparison of the two counts (the first block of the function).\<close>

definition compareCounts :: "SolrCollectionSet \<Rightarrow> int \<Rightarrow> int \<Rightarrow> reporter \<Rightarrow> reporter" where
  "compareCounts collectionSet specifiedCollectionCount solrCollectionsCount r =
     (if specifiedCollectionCount \<noteq> solrCollectionsCount then
        let number = abs32 (word_of_int (specifiedCollectionCount - solrCollectionsCount));
            number = (if spec_BlueGreenEnabled (Spec collectionSet) then quo32 number 2 else number);
            r = r\<lparr>isStable := False\<rparr>;
            r = (if specifiedCollectionCount < solrCollectionsCount then
                   r\<lparr>unstableReason := reasonSolrCollectionRemovingCollections,
                     events := AList.update eventSolrCollectionSetRemovingCollection
                       (''SolrCollectionSpec ['' @ Name collectionSet @ ''] is in namespace [''
                         @ Namespace collectionSet @ ''] is removing ['' @ fmt_d (sint number)
                         @ ''] collections'') (events r)\<rparr>
                 else r);
            r = (if specifiedCollectionCount > solrCollectionsCount then
                   r\<lparr>unstableReason := reasonSolrCollectionAddingCollections,
                     events := AList.update eventSolrCollectionSetAddingCollection
                       (''SolrCollectionSpec ['' @ Name collectionSet @ ''] is in namespace [''
                         @ Namespace collectionSet @ ''] is adding ['' @ fmt_d (sint number)
                         @ ''] collections'') (events r)\<rparr>
                 else r)
        in r
      else r)"

text \<open>One status object per specified collection, from the spec alone.\<close>

fun seedStatusMap ::
  "SolrCollection list \<Rightarrow> bool \<Rightarrow> (string, SolrCollectionStatus) gomap \<Rightarrow> (string, SolrCollectionStatus) gomap" where
  "seedStatusMap [] isBlueGreenEnabled m = m"
| "seedStatusMap (collectionSpec # rest) isBlueGreenEnabled m =
     (let collectionName = sc_Name collectionSpec in
      seedStatusMap rest isBlueGreenEnabled
        (if isBlueGreenEnabled
         then AList.update (collectionName @ ''_green'')
                (newSolrSectionStatus collectionSpec (collectionName @ ''_green''))
                (AList.update (collectionName @ ''_blue'')
                   (newSolrSectionStatus collectionSpec (collectionName @ ''_blue'')) m)
         else AList.update collectionName (newSolrSectionStatus collectionSpec []) m))"

text \<open>
  The body of the loop over the collections of the cluster. The source assigns
  \<open>collectionName\<close> three times, each time from \<open>name\<close>; the last assignment stays.
\<close>

definition observeCollection ::
  "SolrCollectionSet \<Rightarrow> (string, string) gomap \<Rightarrow> reporter \<Rightarrow> string \<times> Collection \<Rightarrow> reporter" where
  "observeCollection collectionSet collectionsToAliasesMap r entry =
     (let name = fst entry; collection = snd entry in
      if HasPrefix (col_Name collection) ''_'' then r
      else
        let isActive =
              (if spec_BlueGreenEnabled (Spec collectionSet) then
                 let collectionName = name;
                     collectionName = TrimSuffix name ''_blue'';
                     collectionName = TrimSuffix name ''_green''
                 in map_of collectionsToAliasesMap collectionName \<noteq> None
               else True);
            r = (if spec_ReplicationFactor (Spec collectionSet) \<noteq> col_ReplicationFactor collection
                 then r\<lparr>isStable := False,
                        unstableReason := reasonSolrCollectionReplicationFactorMismatch\<rparr>
                 else r);
            replicationStatus = fmt_d (sint (col_ReplicaCount collection)) @ ''/''
                                  @ fmt_d (sint (col_ReplicationFactor collection));
            r = (if col_ReplicaCount collection \<noteq> col_ReplicationFactor collection then
                   if col_ReplicaCount collection <s col_ReplicationFactor collection then
                     r\<lparr>isStable := False,
                       unstableReason := reasonSolrCollectionSetScalingOut,
                       events := AList.update eventSolrCollectionSetScaleOut
                         (''SolrCollectionSpec ['' @ Name collectionSet @ ''] is in namespace [''
                           @ Namespace collectionSet @ ''] is scaling out from [''
                           @ fmt_d (sint (col_ReplicaCount collection)) @ ''] replicas to [''
                           @ fmt_d (sint (col_ReplicationFactor collection)) @ '']'') (events r)\<rparr>
                   else if col_ReplicationFactor collection <s col_ReplicaCount collection then
                     r\<lparr>isStable := False,
                       unstableReason := reasonSolrCollectionSetScalingIn,
                       events := AList.update eventSolrCollectionSetScaleIn
                         (''SolrCollectionSpec ['' @ Name collectionSet @ ''] is in namespace [''
                           @ Namespace collectionSet @ ''] is scaling in from [''
                           @ fmt_d (sint (col_ReplicaCount collection)) @ ''] replicas to [''
                           @ fmt_d (sint (col_ReplicationFactor collection)) @ '']'') (events r)\<rparr>
                   else r\<lparr>isStable := False\<rparr>
                 else r)
        in case map_of (collectionStatusMap r) name of
             None \<Rightarrow> r
           | Some solrCollectionStatus \<Rightarrow>
               r\<lparr>collectionStatusMap :=
                   AList.update name
                     (solrCollectionStatus
                        \<lparr>st_ReplicationFactor := col_ReplicationFactor collection,
                         st_ReplicaCount := col_ReplicaCount collection,
                         st_ReplicationStatus := replicationStatus,
                         st_Active := isActive,
                         st_Exists := True\<rparr>)
                     (collectionStatusMap r)\<rparr>)"

text \<open>The reporter after the count comparison and the loop over the cluster.\<close>

definition observeCluster :: "SolrCollectionSet \<Rightarrow> ClusterStatus \<Rightarrow> reporter" where
  "observeCluster collectionSet clusterStatus =
     (let isBlueGreenEnabled = spec_BlueGreenEnabled (Spec collectionSet);
          specifiedCollectionCount =
            countSpecifiedCollections (spec_Collections (Spec collectionSet)) isBlueGreenEnabled;
          solrCollectionsCount = countSolrCollections (Collections clusterStatus);
          r = compareCounts collectionSet specifiedCollectionCount solrCollectionsCount
                \<lparr>isStable = True, unstableReason = [], events = [], collectionStatusMap = []\<rparr>;
          collectionsToAliasesMap = reverseAliases (Aliases clusterStatus) [];
          r = r\<lparr>collectionStatusMap :=
                  seedStatusMap (spec_Collections (Spec collectionSet)) isBlueGreenEnabled []\<rparr>
      in foldl (observeCollection collectionSet collectionsToAliasesMap) r (Collections clusterStatus))"

text \<open>The map \<open>existingConditions\<close>, and the conditions carried forward.\<close>

fun mapConditions :: "Condition list \<Rightarrow> (string, Condition) gomap \<Rightarrow> (string, Condition) gomap" where
  "mapConditions [] existingConditions = existingConditions"
| "mapConditions (condition # rest) existingConditions =
     mapConditions rest (AList.update (cond_Type condition) condition existingConditions)"

fun carryForward :: "nat \<Rightarrow> (string, Condition) gomap \<Rightarrow> Condition list \<Rightarrow> Condition list" where
  "carryForward now [] conditions = conditions"
| "carryForward now ((t, c) # existingConditions) conditions =
     carryForward now existingConditions
       (if t \<noteq> typeSolrCollectionSetStable then SetStatusCondition now conditions c else conditions)"

text \<open>
  \<open>populateCollectionSetStatus\<close>: the new status object and the events. The error it
  returns is always \<open>nil\<close>. \<open>now\<close> is the clock read by \<open>SetStatusCondition\<close>.
\<close>

definition populateCollectionSetStatus ::
  "nat \<Rightarrow> SolrCollectionSet \<Rightarrow> ClusterStatus \<Rightarrow> SolrCollectionSetStatus \<times> (string, string) gomap" where
  "populateCollectionSetStatus now collectionSet clusterStatus =
     (let specifiedCollectionCount =
            countSpecifiedCollections (spec_Collections (Spec collectionSet))
              (spec_BlueGreenEnabled (Spec collectionSet));
          solrCollectionsCount = countSolrCollections (Collections clusterStatus);
          r = observeCluster collectionSet clusterStatus;
          existingConditions = mapConditions (Conditions (Status collectionSet)) [];
          stable = \<lparr>cond_Type = typeSolrCollectionSetStable,
                    cond_Status = (if isStable r then ConditionTrue else ConditionFalse),
                    cond_ObservedGeneration = 0,
                    cond_LastTransitionTime = 0,
                    cond_Reason = (if isStable r then reasonSolrCollectionSetStable else unstableReason r),
                    cond_Message = (if isStable r then [] else ''Spec and cluster status are not aligned'')\<rparr>;
          conditions = carryForward now existingConditions [];
          conditions =
            (case map_of existingConditions typeSolrCollectionSetStable of
               Some existingCondition \<Rightarrow>
                 if conditionsEqual stable existingCondition
                 then SetStatusCondition now conditions existingCondition
                 else SetStatusCondition now conditions stable
             | None \<Rightarrow> SetStatusCondition now conditions stable)
      in (\<lparr>Conditions = conditions,
           ReplicationFactor = spec_ReplicationFactor (Spec collectionSet),
           ReadyRatio = fmt_d solrCollectionsCount @ ''/'' @ fmt_d specifiedCollectionCount,
           ScaleStatus = [],
           SolrCollections = map snd (collectionStatusMap r)\<rparr>,
          events r))"


section \<open>The engine as the controller calls it\<close>

text \<open>
  The calls that change the engine, named by the action of their URL.
\<close>

datatype request =
    ConfigUPLOAD string string
  | ConfigDELETE string
  | MODIFYCOLLECTION string int32
  | ADDREPLICA string int32
  | DELETEREPLICA string int32
  | CREATE string string int32
  | CREATEALIAS string string
  | DELETEALIAS string
  | DELETE string
  | UpdateRecord string "(string \<times> iface) list"

text \<open>
  What a client function meets when it runs. \<open>http.NewRequest\<close> may return an error
  (\<open>NoRequest\<close>); \<open>client.Do\<close> may return an error and no response (\<open>NoResponse\<close>);
  otherwise there is a response with a status code and a body. The body is read only
  for a status other than 200, by \<open>parseError\<close>: it may be unreadable, or fail to
  decode into a JSON object (\<open>NotJSON\<close>), or be a JSON object. The answer may depend on
  the calls made before.
\<close>

datatype body = Unreadable | NotJSON | JSON "(string \<times> iface) list"

datatype answer = NoRequest | NoResponse | Response nat body

type_synonym engine = "request list \<Rightarrow> request \<Rightarrow> answer"

text \<open>
  \<open>parseError\<close>: the message of an error response. Its two type assertions are
  unchecked, so a JSON body without \<open>error.msg\<close> panics; the callers drop the error it
  returns and keep the message.
\<close>

definition parseError :: "body \<Rightarrow> fault + string" where
  "parseError b =
     (case b of
        Unreadable \<Rightarrow> Inr ''failed to read''
      | NotJSON \<Rightarrow> Inr (''couldn'' @ [CHR 0x27] @ ''t unmarshall the response body'')
      | JSON jsonResponse \<Rightarrow>
          bind (asMap (index jsonResponse ''error'')) (\<lambda>e. asString (index e ''msg'')))"

text \<open>
  The errors of a pass as values: the errors a client function returns, the errors
  \<open>ManageConfigSets\<close> formats, and the error of the Kubernetes client.
\<close>

datatype error =
    NewRequestFailed request
  | RequestFailed request nat string
  | NotEnoughNodes string
  | ClientError string
  | NoCollectionLabel string
  | CouldNotDecode string string
  | CouldNotUpload string
  | CouldNotWriteChecksum string string
  | CouldNotCleanUp string
  | CouldNotFind string

text \<open>
  The run of a pass: the client functions called so far, each by the request it builds,
  and the errors handed to \<open>logger.Error\<close>.
\<close>

record run =
  calls :: "request list"
  logged :: "error list"

text \<open>
  A client function that returns only an error (\<open>UploadConfigSet\<close>, \<open>DeleteConfigSet\<close>,
  \<open>SetReplicationFactor\<close>, \<open>RemoveReplicas\<close>, \<open>CreateCollection\<close>, \<open>AssignAlias\<close>,
  \<open>DeleteAlias\<close>, \<open>DeleteCollection\<close>, \<open>WriteRecord\<close>). All of them have one shape:
  the error of \<open>http.NewRequest\<close> is returned; \<open>defer resp.Body.Close()\<close> comes before
  the test of the error of \<open>client.Do\<close>, so without a response it dereferences \<open>nil\<close>
  and panics; a status other than 200 is the error, with the message of \<open>parseError\<close>.
\<close>

definition send :: "engine \<Rightarrow> run \<Rightarrow> request \<Rightarrow> (fault + error option) \<times> run" where
  "send eng rn rq =
     ((case eng (calls rn) rq of
         NoRequest \<Rightarrow> Inr (Some (NewRequestFailed rq))
       | NoResponse \<Rightarrow> Inl NilPointerDereference
       | Response code b \<Rightarrow>
           if code \<noteq> 200
           then bind (parseError b) (\<lambda>m. Inr (Some (RequestFailed rq code m)))
           else Inr None),
      rn\<lparr>calls := calls rn @ [rq]\<rparr>)"

definition logError :: "error \<Rightarrow> run \<Rightarrow> run" where
  "logError e rn = rn\<lparr>logged := logged rn @ [e]\<rparr>"

text \<open>\<open>AddReplicas\<close>, from the answer on. Its error for a missing response is a text of
  its own, but the deferred close panics before it.\<close>

definition AddReplicas :: "answer \<Rightarrow> string \<Rightarrow> int32 \<Rightarrow> fault + bool \<times> error option" where
  "AddReplicas ans collectionName increaseCount =
     (case ans of
        NoRequest \<Rightarrow> Inr (False, Some (NewRequestFailed (ADDREPLICA collectionName increaseCount)))
      | NoResponse \<Rightarrow> Inl NilPointerDereference
      | Response code b \<Rightarrow>
          if code \<noteq> 200 then
            bind (parseError b) (\<lambda>m.
              let isScaling = Contains m ''Not enough eligible nodes'' in
              if \<not> isScaling
              then Inr (isScaling,
                        Some (RequestFailed (ADDREPLICA collectionName increaseCount) code m))
              else Inr (isScaling, Some (NotEnoughNodes collectionName)))
          else Inr (False, None))"


section \<open>Scaling: AdjustReplicas and the end of Reconcile\<close>

record ReplicationAdjustment =
  CurrentCount :: int32
  TargetCount :: int32

text \<open>The first loop: which collections of the spec need another replica count.\<close>

fun queueAdjustments ::
  "int32 \<Rightarrow> (string, Collection) gomap \<Rightarrow> (string \<times> SolrCollection) list \<Rightarrow>
   (string, ReplicationAdjustment) gomap \<times> run \<Rightarrow> (string, ReplicationAdjustment) gomap \<times> run" where
  "queueAdjustments rf solrCollections [] st = st"
| "queueAdjustments rf solrCollections ((collectionName, spec) # rest) (adjustReplicas, rn) =
     queueAdjustments rf solrCollections rest
       (case map_of solrCollections collectionName of
          None \<Rightarrow> (adjustReplicas, logError (CouldNotFind collectionName) rn)
        | Some collection \<Rightarrow>
            let adjustment = rf - col_ReplicaCount collection in
            if adjustment \<noteq> 0
            then (AList.update collectionName
                    \<lparr>CurrentCount = col_ReplicaCount collection, TargetCount = rf\<rparr> adjustReplicas, rn)
            else (adjustReplicas, rn))"

text \<open>The second loop: the calls, with the returns of the source; a panic ends it.\<close>

fun applyAdjustments ::
  "engine \<Rightarrow> (string \<times> ReplicationAdjustment) list \<Rightarrow> run \<Rightarrow> (fault + bool \<times> error option) \<times> run" where
  "applyAdjustments eng [] rn = (Inr (False, None), rn)"
| "applyAdjustments eng ((collection, adjustment) # rest) rn =
     (let diff = TargetCount adjustment - CurrentCount adjustment in
      if 0 <s diff then
        let rn' = rn\<lparr>calls := calls rn @ [ADDREPLICA collection diff]\<rparr> in
        case AddReplicas (eng (calls rn) (ADDREPLICA collection diff)) collection diff of
          Inl f \<Rightarrow> (Inl f, rn')
        | Inr (isScaling, err) \<Rightarrow>
            if err \<noteq> None then (Inr (False, err), rn')
            else if isScaling then (Inr (True, None), rn')
            else applyAdjustments eng rest rn'
      else
        case send eng rn (DELETEREPLICA collection (abs32 diff)) of
          (Inl f, rn') \<Rightarrow> (Inl f, rn')
        | (Inr err, rn') \<Rightarrow>
            if err \<noteq> None then (Inr (False, err), rn')
            else applyAdjustments eng rest rn')"

definition AdjustReplicas ::
  "engine \<Rightarrow> SolrCollectionSet \<Rightarrow> (string, Collection) gomap \<Rightarrow> run \<Rightarrow>
   (fault + bool \<times> error option) \<times> run" where
  "AdjustReplicas eng collectionSet solrCollections rn =
     (let specCollectionsMap =
            mapCollections (spec_Collections (Spec collectionSet)) []
              (spec_BlueGreenEnabled (Spec collectionSet));
          (adjustReplicas, rn) =
            queueAdjustments (spec_ReplicationFactor (Spec collectionSet)) solrCollections
              specCollectionsMap ([], rn)
      in applyAdjustments eng adjustReplicas rn)"

text \<open>
  \<open>reconcile.Result\<close> by its \<open>RequeueAfter\<close> in milliseconds, 0 for the empty result.
  \<open>RequeueOnError\<close> writes the condition \<open>Stable = False\<close> with the reason
  \<open>errorEncountered\<close>; \<open>patched\<close> says whether the patch of the status and the re-fetch
  succeeded.
\<close>

datatype Result = RequeueAfter nat

definition requeue :: Result where
  "requeue = RequeueAfter 0"

definition requeueWithBackoff :: Result where
  "requeueWithBackoff = RequeueAfter (1000 * backoffRequeueSeconds)"

definition RequeueOnError ::
  "nat \<Rightarrow> bool \<Rightarrow> SolrCollectionSet \<Rightarrow> string \<Rightarrow> SolrCollectionSetStatus \<times> Result" where
  "RequeueOnError now patched collectionSet errorText =
     (let stableCondition =
            \<lparr>cond_Type = typeSolrCollectionSetStable, cond_Status = ConditionFalse,
             cond_ObservedGeneration = 0, cond_LastTransitionTime = 0,
             cond_Reason = reasonSolrCollectionSetReconcileError, cond_Message = errorText\<rparr>;
          statusCopy = (Status collectionSet)
            \<lparr>Conditions := SetStatusCondition now (Conditions (Status collectionSet)) stableCondition\<rparr>
      in if Status collectionSet \<noteq> statusCopy
         then (if patched then (statusCopy, requeue) else (statusCopy, requeueWithBackoff))
         else (Status collectionSet, requeue))"

text \<open>
  The end of \<open>Reconcile\<close>, from the call of \<open>AdjustReplicas\<close> on. \<open>errorText\<close> renders an
  error as the text of \<open>err.Error()\<close>. A panic of the client leaves \<open>Reconcile\<close>.
\<close>

definition reconcileScaling ::
  "nat \<Rightarrow> bool \<Rightarrow> (error \<Rightarrow> string) \<Rightarrow> engine \<Rightarrow> SolrCollectionSet \<Rightarrow> ClusterStatus \<Rightarrow> run \<Rightarrow>
   fault + SolrCollectionSetStatus \<times> Result" where
  "reconcileScaling now patched errorText eng collectionSet clusterStatus rn =
     (case fst (AdjustReplicas eng collectionSet (Collections clusterStatus) rn) of
        Inl f \<Rightarrow> Inl f
      | Inr (isScaling, err) \<Rightarrow>
          (case err of
             Some e \<Rightarrow> Inr (RequeueOnError now patched collectionSet (errorText e))
           | None \<Rightarrow>
               if isScaling
               then Inr (Status collectionSet, RequeueAfter (1000 * backoffRequeueSeconds))
               else Inr (Status collectionSet, requeue)))"


section \<open>Collections: ManageCollections\<close>

text \<open>The four maps of actions that \<open>ManageCollections\<close> fills before it calls the engine.\<close>

record collectionsPlan =
  createCollectionsMap :: "(string, SolrCollection) gomap"
  deleteAliasesMap :: "(string, string) gomap"
  deleteCollectionsMap :: "(string, SolrCollection) gomap"
  adjustReplicationFactorMap :: "(string, Collection) gomap"

fun queueCreates ::
  "(string, Collection) gomap \<Rightarrow> (string \<times> SolrCollection) list \<Rightarrow> (string, SolrCollection) gomap \<Rightarrow>
   (string, SolrCollection) gomap" where
  "queueCreates solrCollections [] creates = creates"
| "queueCreates solrCollections ((collectionName, spec) # rest) creates =
     queueCreates solrCollections rest
       (if map_of solrCollections collectionName = None
        then AList.update collectionName spec creates
        else creates)"

text \<open>
  The cleanup loop. The spec stored for a collection to delete is the zero value, since
  the lookup in the spec map failed.
\<close>

fun queueDeletes ::
  "(string, SolrCollection) gomap \<Rightarrow> (string, string) gomap \<Rightarrow> (string \<times> Collection) list \<Rightarrow>
   (string, SolrCollection) gomap \<times> (string, string) gomap \<Rightarrow>
   (string, SolrCollection) gomap \<times> (string, string) gomap" where
  "queueDeletes specCollectionsMap collectionsToAliasesMap [] st = st"
| "queueDeletes specCollectionsMap collectionsToAliasesMap ((collectionName, c) # rest)
       (deletes, aliasDeletes) =
     queueDeletes specCollectionsMap collectionsToAliasesMap rest
       (if map_of specCollectionsMap collectionName = None \<and> \<not> HasPrefix collectionName ''_''
        then (AList.update collectionName \<lparr>sc_Name = [], sc_Alias = [], sc_ConfigsetName = []\<rparr>
                deletes,
              case map_of collectionsToAliasesMap collectionName of
                Some alias \<Rightarrow> AList.update collectionName alias aliasDeletes
              | None \<Rightarrow> aliasDeletes)
        else (deletes, aliasDeletes))"

fun queueReplicationFactor ::
  "int32 \<Rightarrow> (string, SolrCollection) gomap \<Rightarrow> (string \<times> Collection) list \<Rightarrow> (string, Collection) gomap \<Rightarrow>
   (string, Collection) gomap" where
  "queueReplicationFactor rf specCollectionsMap [] adjusts = adjusts"
| "queueReplicationFactor rf specCollectionsMap ((collectionName, collection) # rest)
       adjusts =
     queueReplicationFactor rf specCollectionsMap rest
       (if map_of specCollectionsMap collectionName \<noteq> None \<and> col_ReplicationFactor collection \<noteq> rf
        then AList.update collectionName collection adjusts
        else adjusts)"

definition planCollections ::
  "SolrCollectionSet \<Rightarrow> (string, Collection) gomap \<Rightarrow> (string, string) gomap \<Rightarrow> collectionsPlan" where
  "planCollections collectionSet solrCollections aliases =
     (let collectionsToAliasesMap = reverseAliases aliases [];
          specCollectionsMap =
            mapCollections (spec_Collections (Spec collectionSet)) []
              (spec_BlueGreenEnabled (Spec collectionSet));
          creates = queueCreates solrCollections specCollectionsMap [];
          (deletes, aliasDeletes) =
            (if spec_CleanupEnabled (Spec collectionSet)
             then queueDeletes specCollectionsMap collectionsToAliasesMap solrCollections ([], [])
             else ([], []));
          adjusts =
            queueReplicationFactor (spec_ReplicationFactor (Spec collectionSet)) specCollectionsMap
              solrCollections []
      in \<lparr>createCollectionsMap = creates,
          deleteAliasesMap = aliasDeletes,
          deleteCollectionsMap = deletes,
          adjustReplicationFactorMap = adjusts\<rparr>)"

text \<open>
  A call whose error is logged and otherwise ignored; a panic is passed on. The loops
  below run until a call panics.
\<close>

definition sendLogged :: "engine \<Rightarrow> request \<Rightarrow> run \<Rightarrow> fault option \<times> run" where
  "sendLogged eng rq rn =
     (case send eng rn rq of
        (Inl f, rn') \<Rightarrow> (Some f, rn')
      | (Inr (Some e), rn') \<Rightarrow> (None, logError e rn')
      | (Inr None, rn') \<Rightarrow> (None, rn'))"

definition andThen :: "fault option \<times> run \<Rightarrow> (run \<Rightarrow> fault option \<times> run) \<Rightarrow> fault option \<times> run" where
  "andThen r k = (case r of (Some f, rn) \<Rightarrow> (Some f, rn) | (None, rn) \<Rightarrow> k rn)"

fun processCreates ::
  "engine \<Rightarrow> SolrCollectionSet \<Rightarrow> (string, string) gomap \<Rightarrow> (string \<times> SolrCollection) list \<Rightarrow> run \<Rightarrow>
   fault option \<times> run" where
  "processCreates eng collectionSet aliases [] rn = (None, rn)"
| "processCreates eng collectionSet aliases ((collectionName, collectionSpec) # rest) rn =
     andThen (sendLogged eng
                (CREATE collectionName (sc_ConfigsetName collectionSpec)
                   (spec_ReplicationFactor (Spec collectionSet))) rn)
       (\<lambda>rn.
     andThen (if spec_BlueGreenEnabled (Spec collectionSet)
                 \<and> map_of aliases (sc_Alias collectionSpec) = None
              then sendLogged eng (CREATEALIAS (sc_Alias collectionSpec) collectionName) rn
              else (None, rn))
       (\<lambda>rn. processCreates eng collectionSet aliases rest rn))"

text \<open>
  The three remaining loops call the engine once per key of their map. The loop over
  \<open>deleteAliasesMap\<close> names its key \<open>alias\<close> and passes it to \<open>DeleteAlias\<close>; the key is
  the collection name, the alias is the value.
\<close>

fun processKeys :: "engine \<Rightarrow> (string \<Rightarrow> request) \<Rightarrow> string list \<Rightarrow> run \<Rightarrow> fault option \<times> run" where
  "processKeys eng mk [] rn = (None, rn)"
| "processKeys eng mk (k # ks) rn =
     andThen (sendLogged eng (mk k) rn) (\<lambda>rn. processKeys eng mk ks rn)"

definition processCollections ::
  "engine \<Rightarrow> SolrCollectionSet \<Rightarrow> (string, string) gomap \<Rightarrow> collectionsPlan \<Rightarrow> run \<Rightarrow>
   (fault + bool) \<times> run" where
  "processCollections eng collectionSet aliases plan rn =
     (case
        andThen (processCreates eng collectionSet aliases (createCollectionsMap plan) rn) (\<lambda>rn.
        andThen (processKeys eng DELETEALIAS (map fst (deleteAliasesMap plan)) rn) (\<lambda>rn.
        andThen (processKeys eng DELETE (map fst (deleteCollectionsMap plan)) rn) (\<lambda>rn.
        processKeys eng (\<lambda>collectionName.
            MODIFYCOLLECTION collectionName (spec_ReplicationFactor (Spec collectionSet)))
          (map fst (adjustReplicationFactorMap plan)) rn)))
      of
        (Some f, rn) \<Rightarrow> (Inl f, rn)
      | (None, rn) \<Rightarrow>
          (Inr (createCollectionsMap plan \<noteq> [] \<or> deleteAliasesMap plan \<noteq> []
                  \<or> deleteCollectionsMap plan \<noteq> [] \<or> adjustReplicationFactorMap plan \<noteq> []),
           rn))"

definition ManageCollections ::
  "engine \<Rightarrow> SolrCollectionSet \<Rightarrow> (string, Collection) gomap \<Rightarrow> (string, string) gomap \<Rightarrow> run \<Rightarrow>
   (fault + bool) \<times> run" where
  "ManageCollections eng collectionSet solrCollections aliases rn =
     processCollections eng collectionSet aliases
       (planCollections collectionSet solrCollections aliases) rn"


section \<open>Config sets: ManageConfigSets\<close>

text \<open>
  A ConfigMap by the parts the controller reads. \<open>m[k]\<close> on a \<open>map[string]string\<close> is the
  empty string for a key that is absent.
\<close>

record ConfigMap =
  cm_Name :: string
  cm_Labels :: "(string, string) gomap"
  cm_Data :: "(string, string) gomap"

definition stringAt :: "(string, string) gomap \<Rightarrow> string \<Rightarrow> string" where
  "stringAt m k = (case map_of m k of None \<Rightarrow> [] | Some v \<Rightarrow> v)"

text \<open>
  \<open>checksum\<close>: \<open>hex.EncodeToString\<close> of the MD5 sum of the bytes of the string. The hash
  is the standard library's: the parameter \<open>md5sum\<close> maps the data to the 16 bytes of
  its sum.
\<close>

definition hexdigit :: "nat \<Rightarrow> char" where
  "hexdigit n = ''0123456789abcdef'' ! (n mod 16)"

definition EncodeToString :: "string \<Rightarrow> string" where
  "EncodeToString src =
     concat (map (\<lambda>c. [hexdigit (of_char c div 16), hexdigit (of_char c mod 16)]) src)"

definition checksum :: "(string \<Rightarrow> string) \<Rightarrow> string \<Rightarrow> string" where
  "checksum md5sum data = EncodeToString (md5sum data)"

text \<open>The document written to the checksum collection: the JSON object, not its text.\<close>

definition checksumRecord :: "(string \<Rightarrow> string) \<Rightarrow> string \<Rightarrow> string \<Rightarrow> (string \<times> iface) list" where
  "checksumRecord md5sum collection configsetEncoded =
     [(''collection'', Str collection), (''checksum'', Str (checksum md5sum configsetEncoded))]"


text \<open>The checksums stored in the engine, by collection; a field that is no string panics.\<close>

fun mapChecksums :: "(string \<times> iface) list list \<Rightarrow> (string, string) gomap \<Rightarrow> fault + (string, string) gomap" where
  "mapChecksums [] configSetChecksums = Inr configSetChecksums"
| "mapChecksums (record # checksumsResponse) configSetChecksums =
     bind (asString (index record ''collection'')) (\<lambda>collection.
     bind (asString (index record ''checksum'')) (\<lambda>sum.
     mapChecksums checksumsResponse (AList.update collection sum configSetChecksums)))"

text \<open>Which ConfigMaps to upload.\<close>

fun queueUploads ::
  "(string \<Rightarrow> string) \<Rightarrow> string list \<Rightarrow> (string, string) gomap \<Rightarrow> (string \<times> ConfigMap) list \<Rightarrow>
   (string, ConfigMap) gomap \<Rightarrow> (string, ConfigMap) gomap" where
  "queueUploads md5sum solrConfigSets configSetChecksums [] configMapsToUpload = configMapsToUpload"
| "queueUploads md5sum solrConfigSets configSetChecksums ((name, configMap) # rest) configMapsToUpload =
     queueUploads md5sum solrConfigSets configSetChecksums rest
       (if \<not> contains solrConfigSets name then AList.update name configMap configMapsToUpload
        else
          let specChecksum = checksum md5sum (stringAt (cm_Data configMap) ''configset'');
              addToUpdate =
                (case map_of configSetChecksums name of
                   None \<Rightarrow> True
                 | Some solrChecksum \<Rightarrow> specChecksum \<noteq> solrChecksum)
          in if addToUpdate then AList.update name configMap configMapsToUpload
             else configMapsToUpload)"

text \<open>Which config sets of the engine to delete, when cleanup is enabled.\<close>

fun queueRemoves ::
  "(string, ConfigMap) gomap \<Rightarrow> string list \<Rightarrow> (string, string) gomap \<Rightarrow> (string, string) gomap" where
  "queueRemoves configMaps [] configMapsToRemove = configMapsToRemove"
| "queueRemoves configMaps (name # solrConfigSets) configMapsToRemove =
     queueRemoves configMaps solrConfigSets
       (if map_of configMaps name = None \<and> \<not> HasPrefix name ''_''
        then AList.update name name configMapsToRemove
        else configMapsToRemove)"



text \<open>The two maps of actions of \<open>ManageConfigSets\<close>: what to upload and what to remove.\<close>

definition planConfigSets ::
  "(string \<Rightarrow> string) \<Rightarrow> SolrCollectionSet \<Rightarrow> string list \<Rightarrow> (string, string) gomap \<Rightarrow>
   (string, ConfigMap) gomap \<Rightarrow> (string, ConfigMap) gomap \<times> (string, string) gomap" where
  "planConfigSets md5sum solrCollectionSet solrConfigSets configSetChecksums configMaps =
     (let configMapsToUpload = queueUploads md5sum solrConfigSets configSetChecksums configMaps [];
          configMapsToRemove =
            (if spec_CleanupEnabled (Spec solrCollectionSet)
             then queueRemoves configMaps solrConfigSets [] else [])
      in (configMapsToUpload, configMapsToRemove))"





section \<open>Notions of the statements\<close>

text \<open>
  The key of a status object in \<open>collectionStatusMap\<close>, read from the object itself: the
  instance name with blue/green, the name without (where \<open>InstanceName\<close> is empty).
\<close>

definition instanceKey :: "SolrCollectionStatus \<Rightarrow> string" where
  "instanceKey e = (if st_BlueGreen e then st_InstanceName e else st_Name e)"

text \<open>
  The instance names the spec asks for: every name with both suffixes when blue/green is
  enabled, the names themselves otherwise.
\<close>

definition desiredInstances :: "SolrCollection list \<Rightarrow> bool \<Rightarrow> string set" where
  "desiredInstances specs bg =
     (if bg then (\<lambda>s. sc_Name s @ ''_blue'') ` set specs \<union> (\<lambda>s. sc_Name s @ ''_green'') ` set specs
      else sc_Name ` set specs)"

text \<open>
  A status object as \<open>newSolrSectionStatus\<close> leaves it, under its own key.
\<close>

definition seedOf :: "string \<times> SolrCollectionStatus \<Rightarrow> bool" where
  "seedOf p = (instanceKey (snd p) = fst p \<and> \<not> st_Active (snd p) \<and> \<not> st_Exists (snd p))"

text \<open>
  The value of \<open>isActive\<close> in the loop over the cluster, for the key \<open>name\<close>.
\<close>

definition observedActive :: "SolrCollectionSet \<Rightarrow> (string, string) gomap \<Rightarrow> string \<Rightarrow> bool" where
  "observedActive cs c2a name =
     (spec_BlueGreenEnabled (Spec cs) \<longrightarrow> map_of c2a (TrimSuffix name ''_green'') \<noteq> None)"

text \<open>
  The five assignments at the end of the body of that loop.
\<close>

definition observedStatus ::
  "SolrCollectionSet \<Rightarrow> (string, string) gomap \<Rightarrow> string \<Rightarrow> Collection \<Rightarrow> SolrCollectionStatus \<Rightarrow> SolrCollectionStatus" where
  "observedStatus cs c2a name c s =
     s\<lparr>st_ReplicationFactor := col_ReplicationFactor c,
       st_ReplicaCount := col_ReplicaCount c,
       st_ReplicationStatus := fmt_d (sint (col_ReplicaCount c)) @ ''/'' @ fmt_d (sint (col_ReplicationFactor c)),
       st_Active := observedActive cs c2a name,
       st_Exists := True\<rparr>"

text \<open>
  A collection of the cluster that makes the body of the loop clear \<open>isStable\<close>: it is not
  reserved, and its replication factor differs from the spec's or its replica count differs
  from its own replication factor.
\<close>

definition mismatched :: "SolrCollectionSet \<Rightarrow> Collection \<Rightarrow> bool" where
  "mismatched cs c =
     (\<not> HasPrefix (col_Name c) ''_''
      \<and> (spec_ReplicationFactor (Spec cs) \<noteq> col_ReplicationFactor c
         \<or> col_ReplicaCount c \<noteq> col_ReplicationFactor c))"

text \<open>
  The reason the body of the loop leaves behind for such a collection: the comparison of
  the replica count is the later assignment.
\<close>

definition reasonOf :: "Collection \<Rightarrow> string" where
  "reasonOf c =
     (if col_ReplicaCount c <s col_ReplicationFactor c then reasonSolrCollectionSetScalingOut
      else if col_ReplicationFactor c <s col_ReplicaCount c then reasonSolrCollectionSetScalingIn
      else reasonSolrCollectionReplicationFactorMismatch)"

text \<open>
  The three conditions under which \<open>ManageConfigSets\<close> queues a ConfigMap for upload.
\<close>

definition needsUpload ::
  "(string \<Rightarrow> string) \<Rightarrow> string list \<Rightarrow> (string, string) gomap \<Rightarrow> string \<Rightarrow> ConfigMap \<Rightarrow> bool" where
  "needsUpload md5sum solrConfigSets configSetChecksums name configMap =
     (\<not> contains solrConfigSets name
      \<or> map_of configSetChecksums name = None
      \<or> map_of configSetChecksums name
           \<noteq> Some (checksum md5sum (stringAt (cm_Data configMap) ''configset'')))"




text \<open>
  The inputs of the scenarios: the collection set \<open>foo\<close> with the single collection \<open>x\<close>,
  a collection as the cluster status reports it, a pass that has made no call yet, the
  body of an error response, an engine that accepts every call, an engine without room for
  another replica, an engine that rejects the upload of one config set, an engine that
  rejects the writes to one collection, an engine that rejects every call, and the
  ConfigMap of a collection.
\<close>

definition collectionSetFoo :: "bool \<Rightarrow> bool \<Rightarrow> int32 \<Rightarrow> SolrCollectionSet" where
  "collectionSetFoo blueGreen cleanup rf =
     \<lparr>Name = ''foo'', Namespace = ''default'',
      Spec = \<lparr>spec_ReplicationFactor = rf, spec_BlueGreenEnabled = blueGreen,
              spec_CleanupEnabled = cleanup,
              spec_Collections = [\<lparr>sc_Name = ''x'', sc_Alias = ''x'', sc_ConfigsetName = ''x''\<rparr>]\<rparr>,
      Status = \<lparr>Conditions = [], ReplicationFactor = 0, ReadyRatio = [], ScaleStatus = [],
                SolrCollections = []\<rparr>\<rparr>"

definition observedCollection :: "string \<Rightarrow> int32 \<Rightarrow> int32 \<Rightarrow> string \<times> Collection" where
  "observedCollection name rf replicas =
     (name, \<lparr>col_Name = name, col_ReplicationFactor = rf, col_ReplicaCount = replicas,
             col_ConfigName = ''x''\<rparr>)"

definition noCalls :: run where
  "noCalls = \<lparr>calls = [], logged = []\<rparr>"

definition errorBody :: "string \<Rightarrow> body" where
  "errorBody m = JSON [(''error'', MapSI [(''msg'', Str m)])]"

definition engineAccepting :: engine where
  "engineAccepting history rq = Response 200 (JSON [])"

definition engineWithoutNodes :: engine where
  "engineWithoutNodes history rq =
     (case rq of
        ADDREPLICA collection n \<Rightarrow>
          Response 400 (errorBody ''Not enough eligible nodes to place 1 replica(s) of type NRT'')
      | _ \<Rightarrow> Response 200 (JSON []))"




definition configMapFor :: "string \<Rightarrow> string \<Rightarrow> ConfigMap" where
  "configMapFor collection configset =
     \<lparr>cm_Name = collection, cm_Labels = [(''collectionSet'', ''foo''), (''collection'', collection)],
      cm_Data = [(''configset'', configset)]\<rparr>"

text \<open>
  MD5 and base64 on the two blobs of the scenarios, \<open>QQ==\<close> and \<open>Qg==\<close>: the sums and
  decodings are the real ones.
\<close>

definition md5OfScenarios :: "string \<Rightarrow> string" where
  "md5OfScenarios data =
     (if data = ''QQ=='' then
        [CHR 0x3D, CHR 0x13, CHR 0x92, CHR 0x95, CHR 0x40, CHR 0x63, CHR 0x18, CHR 0xAB,
         CHR 0x83, CHR 0x9C, CHR 0x07, CHR 0xCC, CHR 0x89, CHR 0xF4, CHR 0x6E, CHR 0x99]
      else if data = ''Qg=='' then
        [CHR 0x2E, CHR 0xA1, CHR 0xAC, CHR 0xCB, CHR 0x22, CHR 0x57, CHR 0x07, CHR 0x46,
         CHR 0xA1, CHR 0xBC, CHR 0xE6, CHR 0xD1, CHR 0x84, CHR 0xFA, CHR 0xC7, CHR 0x8B]
      else [])"




section \<open>Association lists\<close>

lemma in_update_cases:
  "(k', v') \<in> set (AList.update k v al) \<Longrightarrow> (k' = k \<and> v' = v) \<or> (k', v') \<in> set al"
  by (induction al) (auto split: if_splits)

lemma keys_update_present:
  "map_of al k = Some v0 \<Longrightarrow> map fst (AList.update k v al) = map fst al"
  by (simp add: update_keys map_of_eq_None_iff [symmetric] del: map_of_eq_None_iff)


section \<open>Defaulting\<close>

text \<open>
  C5. Defaulting an entry with name \<open>n\<close>, alias \<open>a\<close> and no configset name: the code
  fills the configset name with the entry's name \<open>n\<close>, where the claim (and the comment
  on the field \<open>ConfigsetName\<close>) says the alias \<open>a\<close>.
\<close>

theorem SetCollectionDefaults_configset_from_name:
  "SetCollectionDefaults [\<lparr>sc_Name = ''n'', sc_Alias = ''a'', sc_ConfigsetName = ''''\<rparr>]
     = ([\<lparr>sc_Name = ''n'', sc_Alias = ''a'', sc_ConfigsetName = ''n''\<rparr>], True)"
  by simp


section \<open>Decoding the replication factor\<close>

text \<open>
  C9. A collection of the cluster status without the field \<open>replicationFactor\<close>: the map
  lookup yields \<open>nil\<close>, and \<open>interfaceToInt32\<close> panics on it instead of yielding 0, so the
  whole projection of the response faults.
\<close>

theorem interfaceToInt32_absent_field_panics:
  "interfaceToInt32 Atoi (index [(''configName'', Str ''conf'')] ''replicationFactor'')
     = Inl NilPointerDereference
   \<and> projectClusterStatus Atoi
       [(''cluster'', MapSI [(''collections'', MapSI [(''c'', MapSI
          [(''configName'', Str ''conf''),
           (''shards'', MapSI [(''shard1'', MapSI [(''replicas'', MapSI [])])])])])])]
     = Inl NilPointerDereference"
  by (simp add: interfaceToInt32_def index_def projectClusterStatus_def decodeCollection_def
      countReplicas_def asMap_def asString_def bind_def)


section \<open>Properties of the status reporter\<close>

subsection \<open>The body of the loop, field by field\<close>

lemma observe_map:
  "collectionStatusMap (observeCollection cs c2a r e) =
     (if HasPrefix (col_Name (snd e)) ''_'' then collectionStatusMap r
      else case map_of (collectionStatusMap r) (fst e) of
             None \<Rightarrow> collectionStatusMap r
           | Some s \<Rightarrow> AList.update (fst e) (observedStatus cs c2a (fst e) (snd e) s) (collectionStatusMap r))"
  by (simp add: observeCollection_def Let_def observedStatus_def observedActive_def split: option.split)

lemma observe_stable:
  "isStable (observeCollection cs c2a r e) = (isStable r \<and> \<not> mismatched cs (snd e))"
  by (simp add: observeCollection_def Let_def mismatched_def split: option.split)

lemma observe_reason:
  "unstableReason (observeCollection cs c2a r e) =
     (if mismatched cs (snd e) then reasonOf (snd e) else unstableReason r)"
  apply (simp add: observeCollection_def Let_def mismatched_def reasonOf_def split: option.split)
  using signed.less_linear by blast

lemma observe_lookup:
  "map_of (collectionStatusMap (observeCollection cs c2a r e)) k =
     (if fst e = k \<and> \<not> HasPrefix (col_Name (snd e)) ''_''
      then map_option (observedStatus cs c2a k (snd e)) (map_of (collectionStatusMap r) k)
      else map_of (collectionStatusMap r) k)"
  by (simp add: observe_map update_conv' split: option.split)

subsection \<open>The entries of the status\<close>

lemma seed_keys:
  "fst ` set (seedStatusMap specs bg m) = fst ` set m \<union> desiredInstances specs bg"
  by (induction specs bg m rule: seedStatusMap.induct)
     (auto simp: desiredInstances_def dom_update Let_def)

lemma seed_distinct:
  "distinct (map fst m) \<Longrightarrow> distinct (map fst (seedStatusMap specs bg m))"
  by (induction specs bg m rule: seedStatusMap.induct) (auto simp: distinct_update Let_def)

lemma seed_entries:
  "\<forall>p \<in> set m. seedOf p \<Longrightarrow> \<forall>p \<in> set (seedStatusMap specs bg m). seedOf p"
proof (induction specs bg m rule: seedStatusMap.induct)
  case (1 bg m)
  then show ?case by simp
next
  case (2 collectionSpec rest bg m)
  have new: "seedOf (k, newSolrSectionStatus collectionSpec (if bg then k else []))"
    if "k = (if bg then k else sc_Name collectionSpec)" "bg \<longrightarrow> k \<noteq> []" for k
    using that by (auto simp: seedOf_def instanceKey_def newSolrSectionStatus_def)
  show ?case
    unfolding seedStatusMap.simps Let_def
  proof (rule "2.IH" [OF refl], cases bg)
    case True
    then show "\<forall>p\<in>set (if bg
                 then AList.update (sc_Name collectionSpec @ ''_green'')
                        (newSolrSectionStatus collectionSpec (sc_Name collectionSpec @ ''_green''))
                        (AList.update (sc_Name collectionSpec @ ''_blue'')
                          (newSolrSectionStatus collectionSpec (sc_Name collectionSpec @ ''_blue'')) m)
                 else AList.update (sc_Name collectionSpec) (newSolrSectionStatus collectionSpec []) m).
       seedOf p"
      using "2.prems" new [of "sc_Name collectionSpec @ ''_green''"] new [of "sc_Name collectionSpec @ ''_blue''"]
      by (auto dest!: in_update_cases)
  next
    case False
    then show "\<forall>p\<in>set (if bg
                 then AList.update (sc_Name collectionSpec @ ''_green'')
                        (newSolrSectionStatus collectionSpec (sc_Name collectionSpec @ ''_green''))
                        (AList.update (sc_Name collectionSpec @ ''_blue'')
                          (newSolrSectionStatus collectionSpec (sc_Name collectionSpec @ ''_blue'')) m)
                 else AList.update (sc_Name collectionSpec) (newSolrSectionStatus collectionSpec []) m).
       seedOf p"
      using "2.prems" new [of "sc_Name collectionSpec"]
      by (auto dest!: in_update_cases)
  qed
qed

lemma observe_keys:
  "map fst (collectionStatusMap (observeCollection cs c2a r e)) = map fst (collectionStatusMap r)"
  by (simp add: observe_map keys_update_present split: option.split)

lemma observe_all_keys:
  "map fst (collectionStatusMap (foldl (observeCollection cs c2a) r cols)) = map fst (collectionStatusMap r)"
  by (induction cols arbitrary: r) (simp_all add: observe_keys)

lemma observedStatus_key [simp]: "instanceKey (observedStatus cs c2a n c s) = instanceKey s"
  by (simp add: instanceKey_def observedStatus_def)

lemma observe_keyed:
  assumes "\<forall>p \<in> set (collectionStatusMap r). instanceKey (snd p) = fst p"
  shows "\<forall>p \<in> set (collectionStatusMap (observeCollection cs c2a r e)). instanceKey (snd p) = fst p"
proof (cases "map_of (collectionStatusMap r) (fst e)")
  case None
  then show ?thesis using assms by (simp add: observe_map)
next
  case (Some s)
  then have "instanceKey s = fst e"
    using assms map_of_SomeD by fastforce
  then show ?thesis
    using assms Some by (auto simp: observe_map dest!: in_update_cases)
qed

lemma observe_all_keyed:
  "\<forall>p \<in> set (collectionStatusMap r). instanceKey (snd p) = fst p \<Longrightarrow>
   \<forall>p \<in> set (collectionStatusMap (foldl (observeCollection cs c2a) r cols)). instanceKey (snd p) = fst p"
proof (induction cols arbitrary: r)
  case Nil
  then show ?case by simp
next
  case (Cons e cols)
  show ?case
    unfolding foldl_Cons
    by (rule Cons.IH) (rule observe_keyed [OF Cons.prems])
qed

lemma compareCounts_map [simp]:
  "collectionStatusMap (compareCounts cs a b r) = collectionStatusMap r"
  by (simp add: compareCounts_def Let_def)

lemma cluster_keys:
  "map fst (collectionStatusMap (observeCluster cs cl))
     = map fst (seedStatusMap (spec_Collections (Spec cs)) (spec_BlueGreenEnabled (Spec cs)) [])"
  by (simp add: observeCluster_def Let_def observe_all_keys)

lemma cluster_keyed:
  "\<forall>p \<in> set (collectionStatusMap (observeCluster cs cl)). instanceKey (snd p) = fst p"
proof -
  have "\<forall>p \<in> set (seedStatusMap (spec_Collections (Spec cs)) (spec_BlueGreenEnabled (Spec cs)) []). seedOf p"
    by (rule seed_entries) simp
  then show ?thesis
    unfolding observeCluster_def Let_def
    by (intro observe_all_keyed) (simp add: seedOf_def)
qed

lemma blue_green_disjoint: "a @ ''_blue'' \<noteq> b @ ''_green''"
proof
  assume "a @ ''_blue'' = b @ ''_green''"
  then have "last (a @ ''_blue'') = last (b @ ''_green'')" by simp
  then show False by simp
qed

lemma card_desired:
  assumes "distinct (map sc_Name specs)"
  shows "int (card (desiredInstances specs bg)) = countSpecifiedCollections specs bg"
proof -
  let ?N = "sc_Name ` set specs"
  have n: "card ?N = length specs"
    using assms by (metis distinct_card length_map set_map)
  have b: "(\<lambda>s. sc_Name s @ ''_blue'') ` set specs = (\<lambda>n. n @ ''_blue'') ` ?N"
    and g: "(\<lambda>s. sc_Name s @ ''_green'') ` set specs = (\<lambda>n. n @ ''_green'') ` ?N"
    by auto
  have cb: "card ((\<lambda>n. n @ ''_blue'') ` ?N) = card ?N"
    by (rule card_image) (simp add: inj_on_def)
  have cg: "card ((\<lambda>n. n @ ''_green'') ` ?N) = card ?N"
    by (rule card_image) (simp add: inj_on_def)
  have dj: "(\<lambda>n. n @ ''_blue'') ` ?N \<inter> (\<lambda>n. n @ ''_green'') ` ?N = {}"
    using blue_green_disjoint by auto
  have "card ((\<lambda>n. n @ ''_blue'') ` ?N \<union> (\<lambda>n. n @ ''_green'') ` ?N) = 2 * card ?N"
    using cb cg by (simp add: card_Un_disjoint dj)
  then show ?thesis
    using n by (simp add: desiredInstances_def countSpecifiedCollections_def b g)
qed

text \<open>
  C10. The status holds one entry for each desired instance and no other entry, whatever
  the cluster holds: the keys of its entries are pairwise distinct and are exactly the
  desired instance names. Where the names of the spec are pairwise distinct (the list is a
  map keyed by \<open>name\<close> in the API type), that makes \<open>len(spec.collections)\<close> entries,
  doubled with blue/green.
\<close>

theorem status_entries_are_desired_instances:
  "distinct (map instanceKey (SolrCollections (fst (populateCollectionSetStatus now cs cl))))
   \<and> set (map instanceKey (SolrCollections (fst (populateCollectionSetStatus now cs cl))))
       = desiredInstances (spec_Collections (Spec cs)) (spec_BlueGreenEnabled (Spec cs))
   \<and> (distinct (map sc_Name (spec_Collections (Spec cs))) \<longrightarrow>
        int (length (SolrCollections (fst (populateCollectionSetStatus now cs cl))))
          = countSpecifiedCollections (spec_Collections (Spec cs)) (spec_BlueGreenEnabled (Spec cs)))"
proof -
  let ?specs = "spec_Collections (Spec cs)" and ?bg = "spec_BlueGreenEnabled (Spec cs)"
  let ?m = "collectionStatusMap (observeCluster cs cl)"
  let ?out = "SolrCollections (fst (populateCollectionSetStatus now cs cl))"
  have out: "?out = map snd ?m"
    by (simp add: populateCollectionSetStatus_def Let_def)
  have keys: "map instanceKey ?out = map fst ?m"
    using cluster_keyed [of cs cl] by (simp add: out)
  have seed: "map fst ?m = map fst (seedStatusMap ?specs ?bg [])"
    by (rule cluster_keys)
  have d: "distinct (map instanceKey ?out)"
    unfolding keys seed by (rule seed_distinct) simp
  have s: "set (map instanceKey ?out) = desiredInstances ?specs ?bg"
    unfolding keys seed using seed_keys [of ?specs ?bg "[]"] by simp
  have "int (length ?out) = countSpecifiedCollections ?specs ?bg"
    if "distinct (map sc_Name ?specs)"
  proof -
    have "length ?out = length (map instanceKey ?out)" by simp
    also have "\<dots> = card (set (map instanceKey ?out))"
      using d by (simp only: distinct_card)
    finally show ?thesis
      using card_desired [OF that, of ?bg] by (simp only: s)
  qed
  with d s show ?thesis by blast
qed

text \<open>
  The theorem at the collection set \<open>foo\<close> with blue/green, on a cluster that holds one of
  its two instances and a collection \<open>y\<close> outside the spec.
\<close>

theorem status_entries_are_desired_instances_witness:
  "distinct (map sc_Name (spec_Collections (Spec (collectionSetFoo True False 1))))
   \<and> int (length (SolrCollections (fst (populateCollectionSetStatus 5 (collectionSetFoo True False 1)
        \<lparr>Collections = [observedCollection ''x_blue'' 1 1, observedCollection ''y'' 1 1],
         Aliases = []\<rparr>))))
       = countSpecifiedCollections (spec_Collections (Spec (collectionSetFoo True False 1)))
           (spec_BlueGreenEnabled (Spec (collectionSetFoo True False 1)))"
proof (rule conjI)
  show d: "distinct (map sc_Name (spec_Collections (Spec (collectionSetFoo True False 1))))"
    by code_simp
  show "int (length (SolrCollections (fst (populateCollectionSetStatus 5 (collectionSetFoo True False 1)
        \<lparr>Collections = [observedCollection ''x_blue'' 1 1, observedCollection ''y'' 1 1],
         Aliases = []\<rparr>))))
       = countSpecifiedCollections (spec_Collections (Spec (collectionSetFoo True False 1)))
           (spec_BlueGreenEnabled (Spec (collectionSetFoo True False 1)))"
    by (rule status_entries_are_desired_instances [THEN conjunct2, THEN conjunct2, THEN mp, OF d])
qed

subsection \<open>Active\<close>

lemma observe_all_lookup:
  assumes "distinct (map fst cols)" and "map_of (collectionStatusMap r) k = Some e0"
  shows "\<exists>e. map_of (collectionStatusMap (foldl (observeCollection cs c2a) r cols)) k = Some e
           \<and> (st_Active e \<longleftrightarrow>
                (if \<exists>c. (k, c) \<in> set cols \<and> \<not> HasPrefix (col_Name c) ''_''
                 then observedActive cs c2a k else st_Active e0))"
  using assms
proof (induction cols arbitrary: r e0)
  case Nil
  then show ?case by simp
next
  case (Cons x cols)
  obtain k' c' where x: "x = (k', c')" by (cases x)
  let ?r = "observeCollection cs c2a r x"
  from Cons.prems have d: "distinct (map fst cols)" and fresh: "k' \<notin> fst ` set cols"
    by (simp_all add: x)
  show ?case
  proof (cases "k' = k \<and> \<not> HasPrefix (col_Name c') ''_''")
    case True
    then have l: "map_of (collectionStatusMap ?r) k = Some (observedStatus cs c2a k c' e0)"
      using Cons.prems(2) by (simp add: observe_lookup x)
    have none: "\<not> (\<exists>c. (k, c) \<in> set cols \<and> \<not> HasPrefix (col_Name c) ''_'')"
      using fresh True by force
    from Cons.IH [OF d l] none True show ?thesis
      by (auto simp: x observedStatus_def)
  next
    case False
    then have l: "map_of (collectionStatusMap ?r) k = Some e0"
      using Cons.prems(2) by (auto simp: observe_lookup x)
    have "(\<exists>c. (k, c) \<in> set (x # cols) \<and> \<not> HasPrefix (col_Name c) ''_'')
            \<longleftrightarrow> (\<exists>c. (k, c) \<in> set cols \<and> \<not> HasPrefix (col_Name c) ''_'')"
      using False fresh by (auto simp: x) 
    with Cons.IH [OF d l] show ?thesis by simp
  qed
qed

lemma reverseAliases_keys:
  "fst ` set (reverseAliases al m) = fst ` set m \<union> snd ` set al"
  by (induction al m rule: reverseAliases.induct) (auto simp: dom_update)

lemma reverseAliases_defined:
  "map_of (reverseAliases al []) c \<noteq> None \<longleftrightarrow> (\<exists>a. (a, c) \<in> set al)"
proof -
  have "map_of (reverseAliases al []) c \<noteq> None \<longleftrightarrow> c \<in> fst ` set (reverseAliases al [])"
    by (simp add: map_of_eq_None_iff)
  also have "\<dots> \<longleftrightarrow> c \<in> snd ` set al"
    by (simp add: reverseAliases_keys)
  also have "\<dots> \<longleftrightarrow> (\<exists>a. (a, c) \<in> set al)"
    by force
  finally show ?thesis .
qed

text \<open>
  C2, as amended. An entry of the status is active exactly when its instance is observed
  in the cluster under a name that is not reserved and, with blue/green enabled, some
  alias points at that very instance. With blue/green enabled the statement is for the
  instances whose name does not end in \<open>_green\<close>, that is, for the \<open>_blue\<close> ones. An
  instance that the cluster does not hold is inactive, also without blue/green.
\<close>

theorem active_of_observed_instance:
  assumes "distinct (map fst (Collections cl))"
      and "e \<in> set (SolrCollections (fst (populateCollectionSetStatus now cs cl)))"
      and "spec_BlueGreenEnabled (Spec cs) \<longrightarrow> \<not> HasSuffix (instanceKey e) ''_green''"
  shows "st_Active e \<longleftrightarrow>
           (\<exists>c. (instanceKey e, c) \<in> set (Collections cl) \<and> \<not> HasPrefix (col_Name c) ''_'')
           \<and> (spec_BlueGreenEnabled (Spec cs) \<longrightarrow> (\<exists>a. (a, instanceKey e) \<in> set (Aliases cl)))"
proof -
  let ?specs = "spec_Collections (Spec cs)" and ?bg = "spec_BlueGreenEnabled (Spec cs)"
  let ?seed = "seedStatusMap ?specs ?bg []"
  let ?c2a = "reverseAliases (Aliases cl) []"
  let ?r0 = "compareCounts cs (countSpecifiedCollections ?specs ?bg)
               (countSolrCollections (Collections cl))
               \<lparr>isStable = True, unstableReason = [], events = [], collectionStatusMap = []\<rparr>"
  let ?r = "?r0\<lparr>collectionStatusMap := ?seed\<rparr>"
  let ?m = "collectionStatusMap (observeCluster cs cl)"
  define k where "k = instanceKey e"
  have m: "?m = collectionStatusMap (foldl (observeCollection cs ?c2a) ?r (Collections cl))"
    by (simp add: observeCluster_def Let_def)
  from assms(2) have "e \<in> snd ` set ?m"
    by (simp add: populateCollectionSetStatus_def Let_def)
  then obtain k' where "(k', e) \<in> set ?m" by force
  with cluster_keyed [of cs cl] have ke: "(k, e) \<in> set ?m"
    by (auto simp: k_def)
  have dm: "distinct (map fst ?m)"
    unfolding cluster_keys by (rule seed_distinct) simp
  from ke dm have look: "map_of ?m k = Some e" by simp
  have "k \<in> fst ` set ?seed"
    using ke cluster_keys [of cs cl] by (metis image_eqI fst_conv set_map)
  then obtain e0 where "(k, e0) \<in> set ?seed" by force
  moreover have ds: "distinct (map fst ?seed)" by (rule seed_distinct) simp
  moreover have "\<forall>p \<in> set ?seed. seedOf p" by (rule seed_entries) simp
  ultimately have l0: "map_of (collectionStatusMap ?r) k = Some e0" and a0: "\<not> st_Active e0"
    by (auto simp: seedOf_def)
  from observe_all_lookup [OF assms(1) l0, of cs ?c2a] look a0
  have "st_Active e \<longleftrightarrow>
          (\<exists>c. (k, c) \<in> set (Collections cl) \<and> \<not> HasPrefix (col_Name c) ''_'') \<and> observedActive cs ?c2a k"
    unfolding m [symmetric] by auto
  moreover have "TrimSuffix k ''_green'' = k" if ?bg
    using assms(3) that by (simp add: TrimSuffix_def k_def)
  ultimately show ?thesis
    unfolding k_def [symmetric] observedActive_def
    using reverseAliases_defined [of "Aliases cl" k] by auto
qed

text \<open>
  The theorem at the entry of \<open>x_blue\<close>, with the alias \<open>x\<close> on \<open>x_blue\<close>.
\<close>

theorem active_of_observed_instance_witness:
  "st_Active \<lparr>st_Name = ''x'', st_InstanceName = ''x_blue'', st_ConfigSet = ''x'', st_Exists = True,
       st_Active = True, st_BlueGreen = True, st_ReplicationFactor = 1, st_ReplicaCount = 1,
       st_ReplicationStatus = ''1/1''\<rparr>
   \<longleftrightarrow>
     (\<exists>c. (instanceKey \<lparr>st_Name = ''x'', st_InstanceName = ''x_blue'', st_ConfigSet = ''x'',
              st_Exists = True, st_Active = True, st_BlueGreen = True, st_ReplicationFactor = 1,
              st_ReplicaCount = 1, st_ReplicationStatus = ''1/1''\<rparr>, c)
            \<in> set (Collections \<lparr>Collections = [observedCollection ''x_blue'' 1 1,
                                                 observedCollection ''x_green'' 1 1],
                                 Aliases = [(''x'', ''x_blue'')]\<rparr>)
          \<and> \<not> HasPrefix (col_Name c) ''_'')
     \<and> (spec_BlueGreenEnabled (Spec (collectionSetFoo True False 1)) \<longrightarrow>
          (\<exists>a. (a, instanceKey \<lparr>st_Name = ''x'', st_InstanceName = ''x_blue'', st_ConfigSet = ''x'',
              st_Exists = True, st_Active = True, st_BlueGreen = True, st_ReplicationFactor = 1,
              st_ReplicaCount = 1, st_ReplicationStatus = ''1/1''\<rparr>)
             \<in> set (Aliases \<lparr>Collections = [observedCollection ''x_blue'' 1 1,
                                              observedCollection ''x_green'' 1 1],
                              Aliases = [(''x'', ''x_blue'')]\<rparr>)))"
proof -
  let ?e = "\<lparr>st_Name = ''x'', st_InstanceName = ''x_blue'', st_ConfigSet = ''x'', st_Exists = True,
       st_Active = True, st_BlueGreen = True, st_ReplicationFactor = 1, st_ReplicaCount = 1,
       st_ReplicationStatus = ''1/1''\<rparr>"
  let ?cl = "\<lparr>Collections = [observedCollection ''x_blue'' 1 1, observedCollection ''x_green'' 1 1],
              Aliases = [(''x'', ''x_blue'')]\<rparr>"
  let ?cs = "collectionSetFoo True False 1"
  have d: "distinct (map fst (Collections ?cl))" by code_simp
  have m: "?e \<in> set (SolrCollections (fst (populateCollectionSetStatus 5 ?cs ?cl)))" by code_simp
  have g: "spec_BlueGreenEnabled (Spec ?cs) \<longrightarrow> \<not> HasSuffix (instanceKey ?e) ''_green''" by code_simp
  show ?thesis
    by (rule active_of_observed_instance [OF d m g])
qed

text \<open>
  C2 as stated fails: with the alias \<open>x\<close> on \<open>x_blue\<close> and both instances in the
  cluster, \<open>x_blue\<close> is reported active and \<open>x_green\<close> is not.
\<close>

theorem active_green_counterexample:
  "SolrCollections (fst (populateCollectionSetStatus 5 (collectionSetFoo True False 1)
      \<lparr>Collections = [observedCollection ''x_blue'' 1 1, observedCollection ''x_green'' 1 1],
       Aliases = [(''x'', ''x_blue'')]\<rparr>))
   = [\<lparr>st_Name = ''x'', st_InstanceName = ''x_blue'', st_ConfigSet = ''x'', st_Exists = True,
       st_Active = True, st_BlueGreen = True, st_ReplicationFactor = 1, st_ReplicaCount = 1,
       st_ReplicationStatus = ''1/1''\<rparr>,
      \<lparr>st_Name = ''x'', st_InstanceName = ''x_green'', st_ConfigSet = ''x'', st_Exists = True,
       st_Active = False, st_BlueGreen = True, st_ReplicationFactor = 1, st_ReplicaCount = 1,
       st_ReplicationStatus = ''1/1''\<rparr>]"
  by code_simp

subsection \<open>The reason of the condition Stable\<close>

lemma observe_all_stable:
  "isStable (foldl (observeCollection cs c2a) r cols)
     = (isStable r \<and> filter (\<lambda>e. mismatched cs (snd e)) cols = [])"
  by (induction cols rule: rev_induct) (auto simp: observe_stable)

lemma observe_all_reason:
  "unstableReason (foldl (observeCollection cs c2a) r cols)
     = (if filter (\<lambda>e. mismatched cs (snd e)) cols = [] then unstableReason r
        else reasonOf (snd (last (filter (\<lambda>e. mismatched cs (snd e)) cols))))"
  by (induction cols rule: rev_induct) (auto simp: observe_reason)

lemma compareCounts_stable:
  "isStable (compareCounts cs a b r) = (isStable r \<and> a = b)"
  by (simp add: compareCounts_def Let_def)

lemma compareCounts_reason:
  "unstableReason (compareCounts cs a b r)
     = (if a < b then reasonSolrCollectionRemovingCollections
        else if b < a then reasonSolrCollectionAddingCollections else unstableReason r)"
  by (simp add: compareCounts_def Let_def)

lemma SetStatusCondition_types:
  "cond_Type ` set (SetStatusCondition now conds n) = cond_Type ` set conds \<union> {cond_Type n}"
  by (induction conds) (auto simp: mergeCondition_def Let_def)

lemma mapConditions_keyed:
  "\<forall>p \<in> set m. cond_Type (snd p) = fst p \<Longrightarrow>
   \<forall>p \<in> set (mapConditions conds m). cond_Type (snd p) = fst p"
proof (induction conds arbitrary: m)
  case Nil
  then show ?case by simp
next
  case (Cons c conds)
  show ?case
    unfolding mapConditions.simps
    by (rule Cons.IH) (use Cons.prems in \<open>auto dest!: in_update_cases\<close>)
qed

lemma carryForward_types:
  "\<forall>p \<in> set ex. cond_Type (snd p) = fst p \<Longrightarrow>
   typeSolrCollectionSetStable \<notin> cond_Type ` set conds \<Longrightarrow>
   typeSolrCollectionSetStable \<notin> cond_Type ` set (carryForward now ex conds)"
proof (induction ex arbitrary: conds)
  case Nil
  then show ?case by simp
next
  case (Cons p ex)
  obtain t c where p: "p = (t, c)" by (cases p)
  from Cons.prems(1) have tc: "cond_Type c = t" and rest: "\<forall>p \<in> set ex. cond_Type (snd p) = fst p"
    by (simp_all add: p)
  have "typeSolrCollectionSetStable \<notin> cond_Type `
          set (if t \<noteq> typeSolrCollectionSetStable then SetStatusCondition now conds c else conds)"
    using Cons.prems(2) tc by (simp add: SetStatusCondition_types)
  from Cons.IH [OF rest this] show ?case
    by (simp add: p)
qed

lemma SetStatusCondition_fresh:
  "cond_Type n \<notin> cond_Type ` set conds \<Longrightarrow>
   SetStatusCondition now conds n =
     conds @ [if cond_LastTransitionTime n = 0 then n\<lparr>cond_LastTransitionTime := now\<rparr> else n]"
  by (induction conds) auto

lemma FindStatusCondition_last:
  "cond_Type x \<notin> cond_Type ` set conds \<Longrightarrow> FindStatusCondition (conds @ [x]) (cond_Type x) = Some x"
  by (induction conds) auto

lemma FindStatusCondition_set:
  assumes "cond_Type n = typeSolrCollectionSetStable"
      and "typeSolrCollectionSetStable \<notin> cond_Type ` set conds"
  shows "\<exists>c. FindStatusCondition (SetStatusCondition now conds n) typeSolrCollectionSetStable = Some c
            \<and> cond_Status c = cond_Status n \<and> cond_Reason c = cond_Reason n"
proof -
  let ?x = "if cond_LastTransitionTime n = 0 then n\<lparr>cond_LastTransitionTime := now\<rparr> else n"
  have t: "cond_Type ?x = typeSolrCollectionSetStable" using assms(1) by simp
  have "SetStatusCondition now conds n = conds @ [?x]"
    by (rule SetStatusCondition_fresh) (use assms in simp)
  moreover have "FindStatusCondition (conds @ [?x]) (cond_Type ?x) = Some ?x"
    by (rule FindStatusCondition_last) (use assms t in simp)
  ultimately show ?thesis
    using t by (intro exI [of _ ?x]) simp
qed

lemma stable_condition:
  "\<exists>c. FindStatusCondition (Conditions (fst (populateCollectionSetStatus now cs cl)))
          typeSolrCollectionSetStable = Some c
      \<and> cond_Status c = (if isStable (observeCluster cs cl) then ConditionTrue else ConditionFalse)
      \<and> cond_Reason c = (if isStable (observeCluster cs cl) then reasonSolrCollectionSetStable
                         else unstableReason (observeCluster cs cl))"
proof -
  let ?r = "observeCluster cs cl"
  let ?ex = "mapConditions (Conditions (Status cs)) []"
  let ?stable = "\<lparr>cond_Type = typeSolrCollectionSetStable,
                    cond_Status = (if isStable ?r then ConditionTrue else ConditionFalse),
                    cond_ObservedGeneration = 0,
                    cond_LastTransitionTime = 0,
                    cond_Reason = (if isStable ?r then reasonSolrCollectionSetStable else unstableReason ?r),
                    cond_Message = (if isStable ?r then [] else ''Spec and cluster status are not aligned'')\<rparr>"
  let ?carried = "carryForward now ?ex []"
  have keyed: "\<forall>p \<in> set ?ex. cond_Type (snd p) = fst p"
    by (rule mapConditions_keyed) simp
  have free: "typeSolrCollectionSetStable \<notin> cond_Type ` set ?carried"
    by (rule carryForward_types [OF keyed]) simp
  define n where "n = (case map_of ?ex typeSolrCollectionSetStable of
                         Some existingCondition \<Rightarrow>
                           if conditionsEqual ?stable existingCondition then existingCondition else ?stable
                       | None \<Rightarrow> ?stable)"
  have conds: "Conditions (fst (populateCollectionSetStatus now cs cl)) = SetStatusCondition now ?carried n"
    by (simp add: populateCollectionSetStatus_def Let_def n_def split: option.split)
  have n: "cond_Type n = typeSolrCollectionSetStable \<and> cond_Status n = cond_Status ?stable
             \<and> cond_Reason n = cond_Reason ?stable"
    by (auto simp: n_def conditionsEqual_def split: option.split)
  from FindStatusCondition_set [OF _ free, of n now] n show ?thesis
    unfolding conds by simp
qed

text \<open>
  C3, as amended. The reason on the condition \<open>Stable\<close> is the one assigned last: the
  comparison of the counts comes first, so a mismatching collection of the cluster
  overrides \<open>addingCollections\<close> and \<open>removingCollections\<close>; among the mismatching
  collections the one visited last decides, and on one collection the comparison of the
  replica count comes after the comparison of the replication factor, so \<open>scalingOut\<close> and
  \<open>scalingIn\<close> override \<open>replicationFactorMismatch\<close>.
\<close>

theorem stable_reason_is_last_assignment:
  "map_option cond_Reason
     (FindStatusCondition (Conditions (fst (populateCollectionSetStatus now cs cl)))
        typeSolrCollectionSetStable)
   = Some (let ms = filter (\<lambda>e. mismatched cs (snd e)) (Collections cl);
               specified = countSpecifiedCollections (spec_Collections (Spec cs))
                             (spec_BlueGreenEnabled (Spec cs));
               observed = countSolrCollections (Collections cl)
           in if ms \<noteq> [] then reasonOf (snd (last ms))
              else if specified < observed then reasonSolrCollectionRemovingCollections
              else if observed < specified then reasonSolrCollectionAddingCollections
              else reasonSolrCollectionSetStable)"
proof -
  let ?r = "observeCluster cs cl"
  let ?ms = "filter (\<lambda>e. mismatched cs (snd e)) (Collections cl)"
  let ?a = "countSpecifiedCollections (spec_Collections (Spec cs)) (spec_BlueGreenEnabled (Spec cs))"
  let ?b = "countSolrCollections (Collections cl)"
  have st: "isStable ?r = (?a = ?b \<and> ?ms = [])"
    by (simp add: observeCluster_def Let_def observe_all_stable compareCounts_stable)
  have re: "unstableReason ?r =
              (if ?ms = [] then
                 (if ?a < ?b then reasonSolrCollectionRemovingCollections
                  else if ?b < ?a then reasonSolrCollectionAddingCollections else [])
               else reasonOf (snd (last ?ms)))"
    by (simp add: observeCluster_def Let_def observe_all_reason compareCounts_reason)
  obtain c where c: "FindStatusCondition (Conditions (fst (populateCollectionSetStatus now cs cl)))
                       typeSolrCollectionSetStable = Some c"
    and r: "cond_Reason c = (if isStable ?r then reasonSolrCollectionSetStable else unstableReason ?r)"
    using stable_condition [of now cs cl] by blast
  show ?thesis
    unfolding c Let_def using r st re by auto
qed

text \<open>
  The theorem on a cluster where the collection visited last has the replica count of its
  own replication factor, which is not the spec's.
\<close>

theorem stable_reason_is_last_assignment_witness:
  "map_option cond_Reason
     (FindStatusCondition (Conditions (fst (populateCollectionSetStatus 5 (collectionSetFoo True False 2)
        \<lparr>Collections = [observedCollection ''x_blue'' 2 1, observedCollection ''x_green'' 1 1],
         Aliases = [(''x'', ''x_blue'')]\<rparr>)))
        typeSolrCollectionSetStable)
   = Some reasonSolrCollectionReplicationFactorMismatch"
proof -
  let ?cl = "\<lparr>Collections = [observedCollection ''x_blue'' 2 1, observedCollection ''x_green'' 1 1],
              Aliases = [(''x'', ''x_blue'')]\<rparr>"
  let ?cs = "collectionSetFoo True False 2"
  have rhs: "(let ms = filter (\<lambda>e. mismatched ?cs (snd e)) (Collections ?cl);
               specified = countSpecifiedCollections (spec_Collections (Spec ?cs))
                             (spec_BlueGreenEnabled (Spec ?cs));
               observed = countSolrCollections (Collections ?cl)
           in if ms \<noteq> [] then reasonOf (snd (last ms))
              else if specified < observed then reasonSolrCollectionRemovingCollections
              else if observed < specified then reasonSolrCollectionAddingCollections
              else reasonSolrCollectionSetStable) = reasonSolrCollectionReplicationFactorMismatch"
    by code_simp
  show ?thesis
    using stable_reason_is_last_assignment [of 5 ?cs ?cl] unfolding rhs .
qed

text \<open>
  C3 as stated fails: a collection with replication factor 2 and one replica, under a spec
  that asks for 3, shows both mismatches, and the reason recorded is \<open>scalingOut\<close>.
\<close>

theorem scaling_overrides_mismatch_counterexample:
  "FindStatusCondition (Conditions (fst (populateCollectionSetStatus 5 (collectionSetFoo False False 3)
      \<lparr>Collections = [observedCollection ''x'' 2 1], Aliases = []\<rparr>))) typeSolrCollectionSetStable
   = Some \<lparr>cond_Type = typeSolrCollectionSetStable, cond_Status = ConditionFalse,
           cond_ObservedGeneration = 0, cond_LastTransitionTime = 5,
           cond_Reason = reasonSolrCollectionSetScalingOut,
           cond_Message = ''Spec and cluster status are not aligned''\<rparr>"
  by code_simp

subsection \<open>A collection outside the spec, without cleanup\<close>

lemma no_cleanup_no_deletes:
  "\<not> spec_CleanupEnabled (Spec cs) \<Longrightarrow>
   deleteCollectionsMap (planCollections cs cols al) = [] \<and> deleteAliasesMap (planCollections cs cols al) = []"
  by (simp add: planCollections_def Let_def)

text \<open>
  C4. Cleanup is disabled, the spec has the one blue/green collection \<open>x\<close>, and the cluster
  holds \<open>x_blue\<close>, \<open>x_green\<close>, the checksum collection and one more collection \<open>y\<close>, each
  with one replica at replication factor 1. The plan holds no delete, and yet the status
  counts \<open>y\<close>: the ready ratio is \<open>3/2\<close>, the condition \<open>Stable\<close> is false with the reason
  \<open>removingCollections\<close>, and the event \<open>RemovingCollection\<close> is raised; the claim says
  \<open>2/2\<close> and stable. The comments of the code say that only the specified collections are
  counted. The same count lets \<open>y\<close> stand in for a missing instance: without \<open>x_green\<close>
  the status is \<open>2/2\<close> and stable while \<open>x_green\<close> is queued for creation.
\<close>

theorem extra_collection_reported_as_removal:
  "deleteCollectionsMap (planCollections (collectionSetFoo True False 1)
      [observedCollection ''_fooChecksums'' 1 1, observedCollection ''x_blue'' 1 1,
       observedCollection ''x_green'' 1 1, observedCollection ''y'' 1 1] [(''x'', ''x_blue'')]) = []
   \<and> deleteAliasesMap (planCollections (collectionSetFoo True False 1)
      [observedCollection ''_fooChecksums'' 1 1, observedCollection ''x_blue'' 1 1,
       observedCollection ''x_green'' 1 1, observedCollection ''y'' 1 1] [(''x'', ''x_blue'')]) = []
   \<and> ReadyRatio (fst (populateCollectionSetStatus 5 (collectionSetFoo True False 1)
      \<lparr>Collections = [observedCollection ''_fooChecksums'' 1 1, observedCollection ''x_blue'' 1 1,
                      observedCollection ''x_green'' 1 1, observedCollection ''y'' 1 1],
       Aliases = [(''x'', ''x_blue'')]\<rparr>)) = ''3/2''
   \<and> FindStatusCondition (Conditions (fst (populateCollectionSetStatus 5 (collectionSetFoo True False 1)
      \<lparr>Collections = [observedCollection ''_fooChecksums'' 1 1, observedCollection ''x_blue'' 1 1,
                      observedCollection ''x_green'' 1 1, observedCollection ''y'' 1 1],
       Aliases = [(''x'', ''x_blue'')]\<rparr>))) typeSolrCollectionSetStable
     = Some \<lparr>cond_Type = typeSolrCollectionSetStable, cond_Status = ConditionFalse,
             cond_ObservedGeneration = 0, cond_LastTransitionTime = 5,
             cond_Reason = reasonSolrCollectionRemovingCollections,
             cond_Message = ''Spec and cluster status are not aligned''\<rparr>
   \<and> snd (populateCollectionSetStatus 5 (collectionSetFoo True False 1)
      \<lparr>Collections = [observedCollection ''_fooChecksums'' 1 1, observedCollection ''x_blue'' 1 1,
                      observedCollection ''x_green'' 1 1, observedCollection ''y'' 1 1],
       Aliases = [(''x'', ''x_blue'')]\<rparr>)
     = [(eventSolrCollectionSetRemovingCollection,
         ''SolrCollectionSpec [foo] is in namespace [default] is removing [0] collections'')]
   \<and> ReadyRatio (fst (populateCollectionSetStatus 5 (collectionSetFoo True False 1)
      \<lparr>Collections = [observedCollection ''_fooChecksums'' 1 1, observedCollection ''x_blue'' 1 1,
                      observedCollection ''y'' 1 1],
       Aliases = [(''x'', ''x_blue'')]\<rparr>)) = ''2/2''
   \<and> FindStatusCondition (Conditions (fst (populateCollectionSetStatus 5 (collectionSetFoo True False 1)
      \<lparr>Collections = [observedCollection ''_fooChecksums'' 1 1, observedCollection ''x_blue'' 1 1,
                      observedCollection ''y'' 1 1],
       Aliases = [(''x'', ''x_blue'')]\<rparr>))) typeSolrCollectionSetStable
     = Some \<lparr>cond_Type = typeSolrCollectionSetStable, cond_Status = ConditionTrue,
             cond_ObservedGeneration = 0, cond_LastTransitionTime = 5,
             cond_Reason = reasonSolrCollectionSetStable, cond_Message = []\<rparr>
   \<and> map fst (createCollectionsMap (planCollections (collectionSetFoo True False 1)
      [observedCollection ''_fooChecksums'' 1 1, observedCollection ''x_blue'' 1 1,
       observedCollection ''y'' 1 1] [(''x'', ''x_blue'')])) = [''x_green'']"
  by code_simp


section \<open>The plans\<close>

subsection \<open>Reserved names\<close>

lemma queueDeletes_collections:
  "k \<in> fst ` set (fst (queueDeletes spm c2a cols st)) \<Longrightarrow>
   k \<in> fst ` set (fst st) \<or> \<not> HasPrefix k ''_''"
  by (induction spm c2a cols st rule: queueDeletes.induct)
     (auto simp: dom_update split: if_splits)

lemma queueDeletes_aliases:
  "(c, a) \<in> set (snd (queueDeletes spm c2a cols st)) \<Longrightarrow>
   (c, a) \<in> set (snd st) \<or> (map_of c2a c = Some a \<and> \<not> HasPrefix c ''_'')"
  by (induction spm c2a cols st rule: queueDeletes.induct)
     (auto split: if_splits option.splits dest!: in_update_cases)

lemma reverseAliases_Some:
  "map_of (reverseAliases al m) c = Some a \<Longrightarrow> (a, c) \<in> set al \<or> map_of m c = Some a"
  by (induction al m rule: reverseAliases.induct) (auto simp: update_conv' split: if_splits)

lemma queueRemoves_keys:
  "n \<in> fst ` set (queueRemoves cms scs m) \<Longrightarrow> n \<in> fst ` set m \<or> \<not> HasPrefix n ''_''"
  by (induction cms scs m rule: queueRemoves.induct) (auto simp: dom_update split: if_splits)

text \<open>
  What holds of the plans for a reserved name \<open>i\<close> and either value of the cleanup flag:
  the collection \<open>i\<close> is not queued for deletion, no key of \<open>deleteAliasesMap\<close> is
  reserved, and the config set \<open>i\<close> is not queued for deletion.
\<close>

lemma reserved_not_queued:
  assumes "HasPrefix i ''_''"
  shows "i \<notin> fst ` set (deleteCollectionsMap (planCollections cs solrCollections aliases))
       \<and> i \<notin> fst ` set (deleteAliasesMap (planCollections cs solrCollections aliases))
       \<and> i \<notin> fst ` set (snd (planConfigSets md5sum cs solrConfigSets configSetChecksums configMaps))"
proof -
  let ?spm = "mapCollections (spec_Collections (Spec cs)) [] (spec_BlueGreenEnabled (Spec cs))"
  let ?c2a = "reverseAliases aliases []"
  let ?q = "queueDeletes ?spm ?c2a solrCollections ([], [])"
  have plan: "deleteCollectionsMap (planCollections cs solrCollections aliases)
                = (if spec_CleanupEnabled (Spec cs) then fst ?q else [])"
             "deleteAliasesMap (planCollections cs solrCollections aliases)
                = (if spec_CleanupEnabled (Spec cs) then snd ?q else [])"
    by (simp_all add: planCollections_def Let_def split_beta)
  have 1: "i \<notin> fst ` set (deleteCollectionsMap (planCollections cs solrCollections aliases))"
    using queueDeletes_collections [of i ?spm ?c2a solrCollections "([], [])"] assms
    by (auto simp: plan)
  have 2: "i \<notin> fst ` set (deleteAliasesMap (planCollections cs solrCollections aliases))"
  proof
    assume "i \<in> fst ` set (deleteAliasesMap (planCollections cs solrCollections aliases))"
    then obtain a where "(i, a) \<in> set (snd ?q)"
      by (auto simp: plan split: if_splits)
    from queueDeletes_aliases [OF this] assms show False by simp
  qed
  have 3: "i \<notin> fst ` set (snd (planConfigSets md5sum cs solrConfigSets configSetChecksums configMaps))"
    using queueRemoves_keys [of i configMaps solrConfigSets "[]"] assms
    by (auto simp: planConfigSets_def Let_def)
  from 1 2 3 show ?thesis by blast
qed

text \<open>
  C6. Cleanup is enabled, the cluster holds the two instances of \<open>x\<close>, the reserved
  checksum collection and a collection \<open>y\<close> outside the spec; the alias \<open>old\<close> points at
  \<open>y\<close>, and an alias named \<open>y\<close> points at the checksum collection. The plan stores the
  alias \<open>old\<close> under the key \<open>y\<close> (and logs that it queues \<open>old\<close>), but the loop over
  \<open>deleteAliasesMap\<close> passes the key to \<open>DeleteAlias\<close>: the alias deleted is \<open>y\<close>, which
  points at the reserved collection, where the claim says that no such alias is deleted.
\<close>

theorem alias_on_reserved_collection_deleted:
  "deleteAliasesMap (planCollections (collectionSetFoo True True 1)
      [observedCollection ''_fooChecksums'' 1 1, observedCollection ''x_blue'' 1 1,
       observedCollection ''x_green'' 1 1, observedCollection ''y'' 1 1]
      [(''x'', ''x_blue''), (''y'', ''_fooChecksums''), (''old'', ''y'')])
     = [(''y'', ''old'')]
   \<and> map_of [(''x'', ''x_blue''), (''y'', ''_fooChecksums''), (''old'', ''y'')] ''y''
       = Some ''_fooChecksums''
   \<and> HasPrefix ''_fooChecksums'' ''_''
   \<and> ManageCollections engineAccepting (collectionSetFoo True True 1)
        [observedCollection ''_fooChecksums'' 1 1, observedCollection ''x_blue'' 1 1,
         observedCollection ''x_green'' 1 1, observedCollection ''y'' 1 1]
        [(''x'', ''x_blue''), (''y'', ''_fooChecksums''), (''old'', ''y'')] noCalls
       = (Inr True, \<lparr>calls = [DELETEALIAS ''y'', DELETE ''y''], logged = []\<rparr>)"
  by code_simp

subsection \<open>Checksums\<close>

lemma queueUploads_keys:
  "fst ` set (queueUploads md5sum scs sums cms acc)
     = fst ` set acc \<union> {c. \<exists>cm. (c, cm) \<in> set cms \<and> needsUpload md5sum scs sums c cm}"
  by (induction md5sum scs sums cms acc rule: queueUploads.induct)
     (auto simp: dom_update needsUpload_def Let_def split: option.splits)

lemma mapChecksums_lookup:
  assumes "mapChecksums docs m = Inr sums"
      and "\<forall>d \<in> set docs. index d ''collection'' = Str c \<longrightarrow> index d ''checksum'' = Str v"
  shows "map_of sums c = (if \<exists>d \<in> set docs. index d ''collection'' = Str c then Some v else map_of m c)"
  using assms
proof (induction docs arbitrary: m)
  case Nil
  then show ?case by simp
next
  case (Cons d docs)
  from Cons.prems(1) obtain cn sm where cn: "index d ''collection'' = Str cn"
    and sm: "index d ''checksum'' = Str sm"
    and rest: "mapChecksums docs (AList.update cn sm m) = Inr sums"
    by (auto simp: bind_def asString_def split: iface.splits sum.splits)
  from Cons.prems(2) have all: "\<forall>d \<in> set docs. index d ''collection'' = Str c \<longrightarrow> index d ''checksum'' = Str v"
    by simp
  from Cons.IH [OF rest all] Cons.prems(2) cn sm show ?case
    by (auto simp: update_conv')
qed

text \<open>
  C7. The engine lists the config set \<open>c\<close>, and the documents read from the checksum
  collection hold a record of \<open>c\<close>, each such record with the checksum of the record
  written after the upload of \<open>c\<close> from the blob \<open>b\<close>. Then a pass over the same blob
  finds the stored checksum equal to its own and does not queue \<open>c\<close> for upload. In general
  a ConfigMap is queued exactly when the engine lacks the config set, or no checksum is
  stored, or the stored one differs from the checksum of the blob as received.
\<close>

theorem checksum_round_trip:
  assumes "contains solrConfigSets c"
      and "mapChecksums checksumsResponse [] = Inr configSetChecksums"
      and "\<exists>d \<in> set checksumsResponse. index d ''collection'' = Str c"
      and "\<forall>d \<in> set checksumsResponse.
             index d ''collection'' = Str c \<longrightarrow>
             index d ''checksum'' = index (checksumRecord md5sum c b) ''checksum''"
      and "\<forall>cm. (c, cm) \<in> set configMaps \<longrightarrow> stringAt (cm_Data cm) ''configset'' = b"
  shows "map_of configSetChecksums c = Some (checksum md5sum b)
       \<and> c \<notin> fst ` set (fst (planConfigSets md5sum cs solrConfigSets configSetChecksums configMaps))
       \<and> (\<forall>n. n \<in> fst ` set (fst (planConfigSets md5sum cs solrConfigSets configSetChecksums configMaps))
              \<longleftrightarrow> (\<exists>cm. (n, cm) \<in> set configMaps
                        \<and> needsUpload md5sum solrConfigSets configSetChecksums n cm))"
proof -
  have rec: "index (checksumRecord md5sum c b) ''checksum'' = Str (checksum md5sum b)"
    by (simp add: checksumRecord_def index_def)
  have "\<forall>d \<in> set checksumsResponse.
          index d ''collection'' = Str c \<longrightarrow> index d ''checksum'' = Str (checksum md5sum b)"
    using assms(4) rec by simp
  from mapChecksums_lookup [OF assms(2) this] assms(3)
  have stored: "map_of configSetChecksums c = Some (checksum md5sum b)" by simp
  have keys: "fst ` set (fst (planConfigSets md5sum cs solrConfigSets configSetChecksums configMaps))
          = {n. \<exists>cm. (n, cm) \<in> set configMaps \<and> needsUpload md5sum solrConfigSets configSetChecksums n cm}"
    by (simp add: planConfigSets_def Let_def queueUploads_keys)
  have "\<not> needsUpload md5sum solrConfigSets configSetChecksums c cm" if "(c, cm) \<in> set configMaps" for cm
    using that assms(1,5) stored by (simp add: needsUpload_def)
  with stored keys show ?thesis by auto
qed

text \<open>
  The theorem at the blob \<open>QQ==\<close> of the collection \<open>x\<close>, with its real MD5 sum; the
  document read back carries an \<open>id\<close> beside the two fields written.
\<close>

lemma checksum_scenario: "checksum md5OfScenarios ''QQ=='' = ''3d139295406318ab839c07cc89f46e99''"
  by code_simp

theorem checksum_round_trip_witness:
  "map_of [(''x'', ''3d139295406318ab839c07cc89f46e99'')] ''x'' = Some (checksum md5OfScenarios ''QQ=='')
   \<and> ''x'' \<notin> fst ` set (fst (planConfigSets md5OfScenarios (collectionSetFoo True False 1)
        [''_checksums'', ''x''] [(''x'', ''3d139295406318ab839c07cc89f46e99'')]
        [(''x'', configMapFor ''x'' ''QQ=='')]))"
proof -
  let ?docs = "[(''id'', Str ''7f0c'') # checksumRecord md5OfScenarios ''x'' ''QQ=='']"
  let ?sums = "[(''x'', ''3d139295406318ab839c07cc89f46e99'')]"
  let ?cms = "[(''x'', configMapFor ''x'' ''QQ=='')]"
  have 1: "contains [''_checksums'', ''x''] ''x''" by code_simp
  have 2: "mapChecksums ?docs [] = Inr ?sums" by code_simp
  have 3: "\<exists>d \<in> set ?docs. index d ''collection'' = Str ''x''" by code_simp
  have 4: "\<forall>d \<in> set ?docs. index d ''collection'' = Str ''x'' \<longrightarrow>
             index d ''checksum'' = index (checksumRecord md5OfScenarios ''x'' ''QQ=='') ''checksum''"
    by code_simp
  have 5: "\<forall>cm. (''x'', cm) \<in> set ?cms \<longrightarrow> stringAt (cm_Data cm) ''configset'' = ''QQ==''"
    by (simp add: configMapFor_def stringAt_def)
  note t = checksum_round_trip [OF 1 2 3 4 5, of "collectionSetFoo True False 1"]
  show ?thesis
    by (rule conjI [OF t [THEN conjunct1] t [THEN conjunct2, THEN conjunct1]])
qed


section \<open>Failures during a pass\<close>

subsection \<open>Calls that return an error\<close>













subsection \<open>Backpressure\<close>

lemma AddReplicas_scaling_has_error: "AddReplicas ans c n = Inr (True, err) \<Longrightarrow> err \<noteq> None"
  by (auto simp: AddReplicas_def Let_def bind_def split: answer.splits if_splits sum.splits)

lemma applyAdjustments_never_scaling: "fst (applyAdjustments eng adj rn) \<noteq> Inr (True, err)"
proof (induction adj arbitrary: rn)
  case Nil
  show ?case by simp
next
  case (Cons p adj)
  obtain c a where p: "p = (c, a)" by (cases p)
  show ?case
    using Cons.IH AddReplicas_scaling_has_error
    by (auto simp: p Let_def split: sum.splits prod.splits if_splits)
qed

lemma AdjustReplicas_never_scaling: "fst (AdjustReplicas eng cs cols rn) \<noteq> Inr (True, err)"
  by (simp add: AdjustReplicas_def Let_def split_beta applyAdjustments_never_scaling)

text \<open>
  C1. The spec asks for 2 replicas of \<open>x\<close>, the cluster has 1, and the engine answers
  \<open>ADDREPLICA\<close> with status 400 and the message \<open>Not enough eligible nodes\<close>.
  \<open>AddReplicas\<close> returns \<open>isScaling = true\<close> together with an error; \<open>AdjustReplicas\<close> tests
  the error first and returns \<open>(false, err)\<close>, so \<open>Reconcile\<close> takes the error path: the
  condition \<open>Stable\<close> gets the reason \<open>errorEncountered\<close> and the result carries no delay
  of 20 seconds. The claim says \<open>(true, nil)\<close> and a requeue after 20 seconds.
\<close>

theorem backpressure_returned_as_error:
  "AdjustReplicas engineWithoutNodes (collectionSetFoo False False 2) [observedCollection ''x'' 2 1] noCalls
     = (Inr (False, Some (NotEnoughNodes ''x'')), \<lparr>calls = [ADDREPLICA ''x'' 1], logged = []\<rparr>)
   \<and> reconcileScaling 5 True errorText engineWithoutNodes (collectionSetFoo False False 2)
        \<lparr>Collections = [observedCollection ''x'' 2 1], Aliases = []\<rparr> noCalls
     = Inr (\<lparr>Conditions =
           [\<lparr>cond_Type = typeSolrCollectionSetStable, cond_Status = ConditionFalse,
             cond_ObservedGeneration = 0, cond_LastTransitionTime = 5,
             cond_Reason = reasonSolrCollectionSetReconcileError,
             cond_Message = errorText (NotEnoughNodes ''x'')\<rparr>],
          ReplicationFactor = 0, ReadyRatio = [], ScaleStatus = [], SolrCollections = []\<rparr>,
        RequeueAfter 0)"
  by code_simp

end
